theory Spec2Isabelle
  imports Complex_Main
begin

chapter \<open>Aqua Park: the deterministic simulation core\<close>

text \<open>
  A shallow embedding of the simulation core of the Aqua Park repository: the seeded
  generator and the physics of \<^verbatim>\<open>src/game/engine.ts\<close>, the track generator of
  \<^verbatim>\<open>src/game/track.ts\<close>, the bot controller of \<^verbatim>\<open>src/ai/botController.ts\<close> with the
  profiles of \<^verbatim>\<open>src/ai/botProfiles.ts\<close>, and the replay codec of
  \<^verbatim>\<open>src/game/replayCodec.ts\<close>.

  Conventions. A TypeScript \<^verbatim>\<open>number\<close> that holds a physical quantity (a position, a
  speed, a timer, a probability) is a \<^typ>\<open>real\<close>: the rounding of IEEE doubles is not
  modelled. A \<^verbatim>\<open>number\<close> that the code only ever uses as an integer (a lane, a tick, a
  seed, a count) is an \<^typ>\<open>int\<close> or a \<^typ>\<open>nat\<close>. An object that the code mutates in
  place is a record that the function returns updated. A read that yields
  \<^verbatim>\<open>undefined\<close> in JavaScript (an array read out of range, a missing key) is
  \<^const>\<open>None\<close>.
\<close>

section \<open>Types (\<^verbatim>\<open>src/game/types.ts\<close>)\<close>

datatype GameMode = classic | timeTrial | chaos | custom

datatype BotProfileType = casual | aggressive | speedster | trickster | adaptive

datatype SegmentType = straight | curve_left | curve_right | ramp | gap | splitter | narrow

datatype ObstacleType = barrel | ring | bumper

datatype PowerupType = speed_boost | shield | jump_boost

text \<open>
  Field names follow the source. The fields \<^verbatim>\<open>x\<close>, \<^verbatim>\<open>y\<close> and \<^verbatim>\<open>id\<close> of
  \<^verbatim>\<open>PlayerState\<close> are \<open>xPos\<close>, \<open>yPos\<close> and \<open>playerId\<close>, and the fields of the track
  records carry a prefix, because a record field is a constant of the theory.
\<close>

record PlayerState =
  playerId :: string
  name :: string
  xPos :: real
  yPos :: real
  lane :: int
  forwardSpeed :: real
  lateralSpeed :: real
  distanceTraveled :: real
  isJumping :: bool
  jumpTimer :: real
  stunTimer :: real
  hasShield :: bool
  shieldTimer :: real
  speedBoostTimer :: real
  jumpBoostTimer :: real
  isBot :: bool
  botProfile :: "BotProfileType option"
  skinIndex :: int
  score :: int
  finished :: bool
  finishTime :: real
  finishPosition :: int

record ObstacleData =
  obsType :: "ObstacleType option"
  obsLane :: int
  obsPosition :: real
  moving :: "bool option"
  moveRange :: "int option"

record PowerupData =
  puType :: "PowerupType option"
  puLane :: int
  puPosition :: real

record TrackSegment =
  segType :: "SegmentType option"
  segLength :: int
  lanes :: int
  obstacles :: "ObstacleData list"
  powerups :: "PowerupData list"
  friction :: real
  slope :: real

record InputState =
  left :: bool
  right :: bool
  jump :: bool

section \<open>The engine (\<^verbatim>\<open>src/game/engine.ts\<close>)\<close>

subsection \<open>Physics constants\<close>

definition FIXED_DT :: real where "FIXED_DT = 1 / 60"
definition LANE_WIDTH :: real where "LANE_WIDTH = 50"
definition FORWARD_ACCEL :: real where "FORWARD_ACCEL = 120"
definition MAX_FORWARD_SPEED :: real where "MAX_FORWARD_SPEED = 400"
definition LATERAL_SPEED :: real where "LATERAL_SPEED = 280"
definition LATERAL_ACCEL :: real where "LATERAL_ACCEL = 1200"
definition LATERAL_FRICTION :: real where "LATERAL_FRICTION = 800"
definition JUMP_DURATION :: real where "JUMP_DURATION = 0.5"
definition STUN_DURATION :: real where "STUN_DURATION = 0.4"
definition COLLISION_PUSH :: real where "COLLISION_PUSH = 150"
definition COLLISION_RADIUS :: real where "COLLISION_RADIUS = 20"
definition SPEED_BOOST_MULT :: real where "SPEED_BOOST_MULT = 1.5"
definition SPEED_BOOST_DURATION :: real where "SPEED_BOOST_DURATION = 3"
definition SHIELD_DURATION :: real where "SHIELD_DURATION = 4"
definition JUMP_BOOST_MULT :: real where "JUMP_BOOST_MULT = 1.5"
definition JUMP_BOOST_DURATION :: real where "JUMP_BOOST_DURATION = 5"
definition LANDING_BOOST :: real where "LANDING_BOOST = 30"
definition SLIDE_WIDTH :: real where "SLIDE_WIDTH = 250"

lemmas PHYSICS =
  FIXED_DT_def LANE_WIDTH_def FORWARD_ACCEL_def MAX_FORWARD_SPEED_def LATERAL_SPEED_def
  LATERAL_ACCEL_def LATERAL_FRICTION_def JUMP_DURATION_def STUN_DURATION_def
  COLLISION_PUSH_def COLLISION_RADIUS_def SPEED_BOOST_MULT_def SPEED_BOOST_DURATION_def
  SHIELD_DURATION_def JUMP_BOOST_MULT_def JUMP_BOOST_DURATION_def LANDING_BOOST_def
  SLIDE_WIDTH_def

subsection \<open>SeededRNG\<close>

text \<open>
  The generator's only field is \<^verbatim>\<open>seed\<close>, so the state of a \<^verbatim>\<open>SeededRNG\<close> is an
  integer. \<^verbatim>\<open>n & 0xFFFFFFFF\<close> is JavaScript's \<^verbatim>\<open>ToInt32\<close> of \<open>n\<close> (the mask is the
  32-bit pattern of all ones, and the result of \<^verbatim>\<open>&\<close> is a signed 32-bit integer);
  \<^verbatim>\<open>n >>> 0\<close> is \<^verbatim>\<open>ToUint32\<close>. For a state in the signed 32-bit range the
  product \<^verbatim>\<open>seed * 1664525 + 1013904223\<close> is below \<open>2 ^ 53\<close> in magnitude, so the
  double arithmetic of the source is exact there and agrees with the integers used here.
  Each method returns its result together with the new state.
\<close>

definition toInt32 :: "int \<Rightarrow> int" where
  "toInt32 n = (n + 2147483648) mod 4294967296 - 2147483648"

definition toUint32 :: "int \<Rightarrow> int" where
  "toUint32 n = n mod 4294967296"

definition rng_step :: "int \<Rightarrow> int" where
  "rng_step seed = toInt32 (seed * 1664525 + 1013904223)"

definition rng_next :: "int \<Rightarrow> real \<times> int" where
  "rng_next seed =
     (let seed' = rng_step seed
      in (real_of_int (toUint32 seed') / 4294967295, seed'))"

definition nextInt :: "int \<Rightarrow> int \<Rightarrow> int \<Rightarrow> int \<times> int" where
  "nextInt lo hi seed =
     (let (v, seed') = rng_next seed
      in (\<lfloor>v * real_of_int (hi - lo)\<rfloor> + lo, seed'))"

definition nextFloat :: "real \<Rightarrow> real \<Rightarrow> int \<Rightarrow> real \<times> int" where
  "nextFloat lo hi seed =
     (let (v, seed') = rng_next seed
      in (v * (hi - lo) + lo, seed'))"

subsection \<open>Player state and the physics tick\<close>

definition createPlayerState ::
  "string \<Rightarrow> string \<Rightarrow> int \<Rightarrow> bool \<Rightarrow> int \<Rightarrow> BotProfileType option \<Rightarrow> PlayerState" where
  "createPlayerState i n l b skin prof =
     \<lparr> playerId = i, name = n,
       xPos = real_of_int l * LANE_WIDTH + LANE_WIDTH / 2, yPos = 0, lane = l,
       forwardSpeed = 0, lateralSpeed = 0, distanceTraveled = 0,
       isJumping = False, jumpTimer = 0, stunTimer = 0,
       hasShield = False, shieldTimer = 0, speedBoostTimer = 0, jumpBoostTimer = 0,
       isBot = b, botProfile = prof, skinIndex = skin,
       score = 0, finished = False, finishTime = 0, finishPosition = 0 \<rparr>"

text \<open>The block under the comment \<^verbatim>\<open>// Update timers\<close>, one \<^verbatim>\<open>if\<close> per timer.\<close>

definition tickStunTimer :: "real \<Rightarrow> PlayerState \<Rightarrow> PlayerState" where
  "tickStunTimer dt p =
     (if stunTimer p > 0
      then (let t = stunTimer p - dt in p\<lparr>stunTimer := (if t < 0 then 0 else t)\<rparr>)
      else p)"

definition tickShieldTimer :: "real \<Rightarrow> PlayerState \<Rightarrow> PlayerState" where
  "tickShieldTimer dt p =
     (if shieldTimer p > 0
      then (let t = shieldTimer p - dt
            in if t \<le> 0 then p\<lparr>hasShield := False, shieldTimer := 0\<rparr>
               else p\<lparr>shieldTimer := t\<rparr>)
      else p)"

definition tickSpeedBoostTimer :: "real \<Rightarrow> PlayerState \<Rightarrow> PlayerState" where
  "tickSpeedBoostTimer dt p =
     (if speedBoostTimer p > 0
      then (let t = speedBoostTimer p - dt in p\<lparr>speedBoostTimer := (if t < 0 then 0 else t)\<rparr>)
      else p)"

definition tickJumpBoostTimer :: "real \<Rightarrow> PlayerState \<Rightarrow> PlayerState" where
  "tickJumpBoostTimer dt p =
     (if jumpBoostTimer p > 0
      then (let t = jumpBoostTimer p - dt in p\<lparr>jumpBoostTimer := (if t < 0 then 0 else t)\<rparr>)
      else p)"

definition updateTimers :: "real \<Rightarrow> PlayerState \<Rightarrow> PlayerState" where
  "updateTimers dt p =
     tickJumpBoostTimer dt (tickSpeedBoostTimer dt (tickShieldTimer dt (tickStunTimer dt p)))"

text \<open>\<^verbatim>\<open>// Forward acceleration (downhill)\<close>\<close>

definition forwardStep :: "TrackSegment \<Rightarrow> real \<Rightarrow> PlayerState \<Rightarrow> PlayerState" where
  "forwardStep seg dt p =
     (let slopeBoost = - slope seg * 50;
          speedMult = (if speedBoostTimer p > 0 then SPEED_BOOST_MULT else 1);
          v1 = forwardSpeed p + (FORWARD_ACCEL + slopeBoost) * dt;
          v2 = min (v1 * speedMult) MAX_FORWARD_SPEED
      in p\<lparr>forwardSpeed := v2 * friction seg\<rparr>)"

text \<open>\<^verbatim>\<open>// Lateral movement\<close>\<close>

definition targetLateral :: "InputState \<Rightarrow> real" where
  "targetLateral inp = (if left inp then - 1 else 0) + (if right inp then 1 else 0)"

definition lateralStep :: "InputState \<Rightarrow> real \<Rightarrow> PlayerState \<Rightarrow> PlayerState" where
  "lateralStep inp dt p =
     (if targetLateral inp \<noteq> 0
      then p\<lparr>lateralSpeed :=
               max (- LATERAL_SPEED)
                 (min LATERAL_SPEED (lateralSpeed p + targetLateral inp * LATERAL_ACCEL * dt))\<rparr>
      else if lateralSpeed p > 0
      then (let v = lateralSpeed p - LATERAL_FRICTION * dt
            in p\<lparr>lateralSpeed := (if v < 0 then 0 else v)\<rparr>)
      else if lateralSpeed p < 0
      then (let v = lateralSpeed p + LATERAL_FRICTION * dt
            in p\<lparr>lateralSpeed := (if v > 0 then 0 else v)\<rparr>)
      else p)"

text \<open>\<^verbatim>\<open>// Jump handling\<close>: the start of a jump, then the countdown and the landing.\<close>

definition jumpStart :: "InputState \<Rightarrow> PlayerState \<Rightarrow> PlayerState" where
  "jumpStart inp p =
     (if jump inp \<and> \<not> isJumping p
      then p\<lparr>isJumping := True,
             jumpTimer := (if jumpBoostTimer p > 0 then JUMP_DURATION * JUMP_BOOST_MULT
                           else JUMP_DURATION)\<rparr>
      else p)"

definition jumpCountdown :: "real \<Rightarrow> PlayerState \<Rightarrow> PlayerState" where
  "jumpCountdown dt p =
     (if isJumping p
      then (let t = jumpTimer p - dt
            in if t \<le> 0
               then p\<lparr>isJumping := False, jumpTimer := 0,
                      forwardSpeed := forwardSpeed p + LANDING_BOOST\<rparr>
               else p\<lparr>jumpTimer := t\<rparr>)
      else p)"

text \<open>\<^verbatim>\<open>// Update position\<close>\<close>

definition integratePosition :: "real \<Rightarrow> PlayerState \<Rightarrow> PlayerState" where
  "integratePosition dt p =
     p\<lparr>xPos := xPos p + lateralSpeed p * dt,
       distanceTraveled := distanceTraveled p + forwardSpeed p * dt\<rparr>"

text \<open>\<^verbatim>\<open>// Clamp to slide bounds\<close>\<close>

definition halfWidth :: "TrackSegment \<Rightarrow> real" where
  "halfWidth seg = (real_of_int (lanes seg) * LANE_WIDTH) / 2"

definition centerX :: real where
  "centerX = SLIDE_WIDTH / 2"

definition clampToSlide :: "TrackSegment \<Rightarrow> PlayerState \<Rightarrow> PlayerState" where
  "clampToSlide seg p =
     p\<lparr>xPos := max (centerX - halfWidth seg + 10) (min (centerX + halfWidth seg - 10) (xPos p))\<rparr>"

text \<open>
  The interval that the specification requires \<^verbatim>\<open>x\<close> to lie in, for the lane count
  of a segment: \<open>[centerX - halfWidth + 10, centerX + halfWidth - 10]\<close>.
\<close>

definition inLaneBounds :: "TrackSegment \<Rightarrow> real \<Rightarrow> bool" where
  "inLaneBounds seg x \<longleftrightarrow>
     centerX - halfWidth seg + 10 \<le> x \<and> x \<le> centerX + halfWidth seg - 10"

text \<open>\<^verbatim>\<open>// Update lane based on position\<close>\<close>

definition updateLane :: "TrackSegment \<Rightarrow> PlayerState \<Rightarrow> PlayerState" where
  "updateLane seg p = p\<lparr>lane := max 0 (min (lanes seg - 1) \<lfloor>xPos p / LANE_WIDTH\<rfloor>)\<rparr>"

text \<open>
  The whole tick. The two early returns of the source are the first two branches: a
  finished player is returned as it is, and a player whose stun timer is still positive
  after the timers were decremented is returned with the timers updated and nothing else.
\<close>

definition updatePlayerPhysics ::
  "PlayerState \<Rightarrow> InputState \<Rightarrow> TrackSegment \<Rightarrow> real \<Rightarrow> PlayerState" where
  "updatePlayerPhysics player inp seg dt =
     (if finished player then player
      else (let p = updateTimers dt player
            in if stunTimer p > 0 then p
               else updateLane seg (clampToSlide seg (integratePosition dt
                      (jumpCountdown dt (jumpStart inp (lateralStep inp dt
                        (forwardStep seg dt p))))))))"

subsection \<open>Collisions between players\<close>

definition checkPlayerCollision :: "PlayerState \<Rightarrow> PlayerState \<Rightarrow> bool" where
  "checkPlayerCollision a b =
     (if isJumping a \<or> isJumping b then False
      else if finished a \<or> finished b then False
      else (let dx = xPos a - xPos b;
                dy = distanceTraveled a - distanceTraveled b;
                dist = sqrt (dx * dx + dy * dy)
            in dist < COLLISION_RADIUS * 2))"

text \<open>
  \<^verbatim>\<open>resolveCollision(a, b)\<close> mutates both arguments; the model returns the pair of the
  updated players, in the order of the arguments. The driver calls it on two distinct
  entries of the roster.
\<close>

definition resolveCollision :: "PlayerState \<Rightarrow> PlayerState \<Rightarrow> PlayerState \<times> PlayerState" where
  "resolveCollision a b =
     (if hasShield a \<and> hasShield b then (a, b)
      else (let dx = xPos a - xPos b;
                pushDir = (if dx > 0 then 1 else - 1);
                a' = (if \<not> hasShield a
                      then a\<lparr>lateralSpeed := lateralSpeed a + pushDir * COLLISION_PUSH,
                             stunTimer := STUN_DURATION\<rparr>
                      else a);
                b' = (if \<not> hasShield b
                      then b\<lparr>lateralSpeed := lateralSpeed b - pushDir * COLLISION_PUSH,
                             stunTimer := STUN_DURATION\<rparr>
                      else b)
            in (a', b')))"

subsection \<open>Scoring\<close>


section \<open>Tracks (\<^verbatim>\<open>src/game/track.ts\<close>)\<close>

datatype QualityLevel = high | medium | low

datatype ControlScheme = buttons | swipe | tilt



definition createSegment ::
  "SegmentType option \<Rightarrow> int \<Rightarrow> int \<Rightarrow> real \<Rightarrow> real \<Rightarrow> ObstacleData list \<Rightarrow> PowerupData list
     \<Rightarrow> TrackSegment" where
  "createSegment ty len ls fr sl obs pus =
     \<lparr> segType = ty, segLength = len, lanes = ls, obstacles = obs, powerups = pus,
       friction = fr, slope = sl \<rparr>"

definition getClassicTrack :: "TrackSegment list" where
  "getClassicTrack =
     [ createSegment (Some straight) 400 5 0.98 (- 0.5)
         [\<lparr> obsType = Some barrel, obsLane = 1, obsPosition = 0.5, moving = None, moveRange = None \<rparr>,
          \<lparr> obsType = Some barrel, obsLane = 3, obsPosition = 0.7, moving = None, moveRange = None \<rparr>]
         [\<lparr> puType = Some speed_boost, puLane = 2, puPosition = 0.3 \<rparr>],
       createSegment (Some curve_left) 300 5 0.97 (- 0.6)
         [\<lparr> obsType = Some ring, obsLane = 0, obsPosition = 0.4, moving = None, moveRange = None \<rparr>,
          \<lparr> obsType = Some bumper, obsLane = 4, obsPosition = 0.6, moving = Some True, moveRange = Some 30 \<rparr>]
         [],
       createSegment (Some ramp) 200 5 0.99 (- 1.0)
         []
         [\<lparr> puType = Some jump_boost, puLane = 2, puPosition = 0.5 \<rparr>],
       createSegment (Some straight) 500 5 0.98 (- 0.4)
         [\<lparr> obsType = Some barrel, obsLane = 0, obsPosition = 0.2, moving = None, moveRange = None \<rparr>,
          \<lparr> obsType = Some barrel, obsLane = 2, obsPosition = 0.3, moving = None, moveRange = None \<rparr>,
          \<lparr> obsType = Some barrel, obsLane = 4, obsPosition = 0.4, moving = None, moveRange = None \<rparr>,
          \<lparr> obsType = Some bumper, obsLane = 1, obsPosition = 0.6, moving = Some True, moveRange = Some 40 \<rparr>,
          \<lparr> obsType = Some ring, obsLane = 3, obsPosition = 0.8, moving = None, moveRange = None \<rparr>]
         [\<lparr> puType = Some speed_boost, puLane = 1, puPosition = 0.15 \<rparr>,
          \<lparr> puType = Some shield, puLane = 3, puPosition = 0.5 \<rparr>],
       createSegment (Some narrow) 200 3 0.96 (- 0.7)
         [\<lparr> obsType = Some bumper, obsLane = 1, obsPosition = 0.5, moving = Some True, moveRange = Some 20 \<rparr>]
         [\<lparr> puType = Some speed_boost, puLane = 0, puPosition = 0.3 \<rparr>],
       createSegment (Some curve_right) 350 5 0.97 (- 0.5)
         [\<lparr> obsType = Some ring, obsLane = 2, obsPosition = 0.3, moving = None, moveRange = None \<rparr>,
          \<lparr> obsType = Some barrel, obsLane = 4, obsPosition = 0.5, moving = None, moveRange = None \<rparr>,
          \<lparr> obsType = Some barrel, obsLane = 0, obsPosition = 0.7, moving = None, moveRange = None \<rparr>]
         [\<lparr> puType = Some jump_boost, puLane = 2, puPosition = 0.6 \<rparr>],
       createSegment (Some ramp) 250 5 0.99 (- 1.2)
         []
         [\<lparr> puType = Some speed_boost, puLane = 2, puPosition = 0.4 \<rparr>],
       createSegment (Some gap) 150 5 0.95 (- 0.3)
         [\<lparr> obsType = Some ring, obsLane = 1, obsPosition = 0.5, moving = None, moveRange = None \<rparr>,
          \<lparr> obsType = Some ring, obsLane = 3, obsPosition = 0.5, moving = None, moveRange = None \<rparr>]
         [],
       createSegment (Some straight) 600 5 0.98 (- 0.8)
         [\<lparr> obsType = Some bumper, obsLane = 0, obsPosition = 0.2, moving = Some True, moveRange = Some 50 \<rparr>,
          \<lparr> obsType = Some bumper, obsLane = 4, obsPosition = 0.3, moving = Some True, moveRange = Some 50 \<rparr>,
          \<lparr> obsType = Some barrel, obsLane = 2, obsPosition = 0.5, moving = None, moveRange = None \<rparr>,
          \<lparr> obsType = Some ring, obsLane = 1, obsPosition = 0.7, moving = None, moveRange = None \<rparr>,
          \<lparr> obsType = Some ring, obsLane = 3, obsPosition = 0.7, moving = None, moveRange = None \<rparr>,
          \<lparr> obsType = Some barrel, obsLane = 2, obsPosition = 0.85, moving = None, moveRange = None \<rparr>]
         [\<lparr> puType = Some speed_boost, puLane = 2, puPosition = 0.1 \<rparr>,
          \<lparr> puType = Some shield, puLane = 0, puPosition = 0.6 \<rparr>,
          \<lparr> puType = Some speed_boost, puLane = 4, puPosition = 0.9 \<rparr>],
       createSegment (Some splitter) 300 5 0.97 (- 0.6)
         [\<lparr> obsType = Some bumper, obsLane = 2, obsPosition = 0.4, moving = None, moveRange = None \<rparr>]
         [\<lparr> puType = Some speed_boost, puLane = 0, puPosition = 0.5 \<rparr>,
          \<lparr> puType = Some speed_boost, puLane = 4, puPosition = 0.5 \<rparr>],
       createSegment (Some straight) 400 5 0.99 (- 1.0)
         [\<lparr> obsType = Some barrel, obsLane = 1, obsPosition = 0.3, moving = None, moveRange = None \<rparr>,
          \<lparr> obsType = Some barrel, obsLane = 3, obsPosition = 0.3, moving = None, moveRange = None \<rparr>]
         [\<lparr> puType = Some speed_boost, puLane = 2, puPosition = 0.5 \<rparr>] ]"

text \<open>
  An array read \<^verbatim>\<open>arr[i]\<close>: the element when \<open>i\<close> is an index of the array,
  \<^verbatim>\<open>undefined\<close> otherwise.
\<close>

definition arrayGet :: "'a list \<Rightarrow> int \<Rightarrow> 'a option" where
  "arrayGet arr i = (if 0 \<le> i \<and> i < int (length arr) then Some (arr ! nat i) else None)"

definition segmentTypes :: "GameMode \<Rightarrow> SegmentType list" where
  "segmentTypes mode =
     [straight, curve_left, curve_right, ramp, narrow, gap]
       @ (if mode = chaos then [splitter, gap, ramp] else [])"






lemma rng_next_range: "0 \<le> fst (rng_next s) \<and> fst (rng_next s) \<le> 1"
proof -
  have "0 \<le> toUint32 (rng_step s) \<and> toUint32 (rng_step s) \<le> 4294967295"
    by (simp add: toUint32_def)
  then show ?thesis by (simp add: rng_next_def Let_def)
qed






section \<open>Bot profiles (\<^verbatim>\<open>src/ai/botProfiles.ts\<close>)\<close>

text \<open>
  The fields \<^verbatim>\<open>type\<close> and \<^verbatim>\<open>name\<close> of \<^verbatim>\<open>BotProfile\<close> are \<open>profType\<close> and
  \<open>profName\<close>. \<^verbatim>\<open>reactionDelay\<close> counts frames and bounds the constructor's loop, so
  it is a natural number.
\<close>

record BotProfile =
  profType :: BotProfileType
  profName :: string
  targetSpeedFactor :: real
  boostSeekRange :: real
  optimalLineWeight :: real
  collisionAggression :: real
  collisionAvoidance :: real
  jumpFrequency :: real
  jumpTimingPrecision :: real
  riskTolerance :: real
  obstacleAvoidRange :: real
  steeringJitter :: real
  reactionDelay :: nat
  mistakeChance :: real
  adaptiveness :: real

text \<open>
  \<^verbatim>\<open>BOT_PROFILES\<close> is a module-level object with one profile object per profile type.
  The profile objects are mutable and live as long as the page, so the table of the five
  objects is part of the state: a \<open>ProfileTable\<close> is the current content of the table,
  and \<open>BOT_PROFILES\<close> is its content when the module is loaded.
\<close>

type_synonym ProfileTable = "BotProfileType \<Rightarrow> BotProfile"

fun BOT_PROFILES :: ProfileTable where
  "BOT_PROFILES casual =
     \<lparr> profType = casual, profName = ''Casual'', targetSpeedFactor = 0.7,
       boostSeekRange = 100, optimalLineWeight = 0.3, collisionAggression = 0.1,
       collisionAvoidance = 0.7, jumpFrequency = 0.2, jumpTimingPrecision = 0.3,
       riskTolerance = 0.2, obstacleAvoidRange = 120, steeringJitter = 0.15,
       reactionDelay = 8, mistakeChance = 0.1, adaptiveness = 0.1 \<rparr>"
| "BOT_PROFILES aggressive =
     \<lparr> profType = aggressive, profName = ''Aggressive'', targetSpeedFactor = 0.85,
       boostSeekRange = 150, optimalLineWeight = 0.4, collisionAggression = 0.8,
       collisionAvoidance = 0.2, jumpFrequency = 0.4, jumpTimingPrecision = 0.5,
       riskTolerance = 0.8, obstacleAvoidRange = 80, steeringJitter = 0.1,
       reactionDelay = 4, mistakeChance = 0.08, adaptiveness = 0.3 \<rparr>"
| "BOT_PROFILES speedster =
     \<lparr> profType = speedster, profName = ''Speedster'', targetSpeedFactor = 0.95,
       boostSeekRange = 200, optimalLineWeight = 0.8, collisionAggression = 0.2,
       collisionAvoidance = 0.5, jumpFrequency = 0.3, jumpTimingPrecision = 0.8,
       riskTolerance = 0.5, obstacleAvoidRange = 150, steeringJitter = 0.05,
       reactionDelay = 2, mistakeChance = 0.04, adaptiveness = 0.2 \<rparr>"
| "BOT_PROFILES trickster =
     \<lparr> profType = trickster, profName = ''Trickster'', targetSpeedFactor = 0.75,
       boostSeekRange = 120, optimalLineWeight = 0.3, collisionAggression = 0.3,
       collisionAvoidance = 0.3, jumpFrequency = 0.8, jumpTimingPrecision = 0.7,
       riskTolerance = 0.7, obstacleAvoidRange = 100, steeringJitter = 0.12,
       reactionDelay = 5, mistakeChance = 0.06, adaptiveness = 0.2 \<rparr>"
| "BOT_PROFILES adaptive =
     \<lparr> profType = adaptive, profName = ''Adaptive'', targetSpeedFactor = 0.8,
       boostSeekRange = 160, optimalLineWeight = 0.6, collisionAggression = 0.4,
       collisionAvoidance = 0.4, jumpFrequency = 0.4, jumpTimingPrecision = 0.6,
       riskTolerance = 0.5, obstacleAvoidRange = 130, steeringJitter = 0.08,
       reactionDelay = 3, mistakeChance = 0.05, adaptiveness = 0.9 \<rparr>"

section \<open>The bot controller (\<^verbatim>\<open>src/ai/botController.ts\<close>)\<close>

datatype BotState = race | avoidObstacle | chase | usePowerup | recover

text \<open>
  The constructor stores \<^verbatim>\<open>BOT_PROFILES[profileType]\<close> in \<^verbatim>\<open>this.profile\<close>: a
  reference to the object in the table, not a copy. The field \<open>profile\<close> of the model
  is therefore the key of that object, every read of \<^verbatim>\<open>this.profile.f\<close> is a read of
  the table at that key, and the assignments to \<^verbatim>\<open>this.profile.f\<close> in
  \<^verbatim>\<open>updateState\<close> update the table. The parameter \<^verbatim>\<open>bot\<close> of the methods is
  \<open>botPlayer\<close> here.
\<close>

record BotController =
  profile :: BotProfileType
  state :: BotState
  stateTimer :: nat
  reactionBuffer :: "InputState list"
  targetLane :: int
  frameCount :: nat

definition neutralInput :: InputState where
  "neutralInput = \<lparr> left = False, right = False, jump = False \<rparr>"

definition newBotController :: "ProfileTable \<Rightarrow> BotProfileType \<Rightarrow> BotController" where
  "newBotController tbl profileType =
     \<lparr> profile = profileType, state = race, stateTimer = 0,
       reactionBuffer = replicate (reactionDelay (tbl profileType)) neutralInput,
       targetLane = 2, frameCount = 0 \<rparr>"

text \<open>\<^verbatim>\<open>getProfile()\<close> returns a copy of the object that \<^verbatim>\<open>this.profile\<close> refers to.\<close>

definition getProfile :: "ProfileTable \<Rightarrow> BotController \<Rightarrow> BotProfile" where
  "getProfile tbl c = tbl (profile c)"

subsection \<open>\<^verbatim>\<open>updateState\<close>\<close>

definition nearbyPlayers :: "PlayerState \<Rightarrow> PlayerState list \<Rightarrow> PlayerState list" where
  "nearbyPlayers botPlayer allPlayers =
     filter (\<lambda>p. playerId p \<noteq> playerId botPlayer \<and> \<not> finished p \<and>
                 \<bar>distanceTraveled p - distanceTraveled botPlayer\<bar> < 100 \<and>
                 \<bar>xPos p - xPos botPlayer\<bar> < SLIDE_WIDTH) allPlayers"

text \<open>\<^verbatim>\<open>// Adaptive behavior adjustment\<close>: the two assignments to the shared profile.\<close>

definition adaptProfile ::
  "ProfileTable \<Rightarrow> BotProfileType \<Rightarrow> PlayerState \<Rightarrow> PlayerState list \<Rightarrow> ProfileTable" where
  "adaptProfile tbl k botPlayer allPlayers =
     (if adaptiveness (tbl k) > 0.5
      then (case find (\<lambda>p. \<not> isBot p) allPlayers of
              Some humanPlayer \<Rightarrow>
                if distanceTraveled humanPlayer > distanceTraveled botPlayer + 100
                then tbl(k := (tbl k)
                       \<lparr> targetSpeedFactor := min 1 (targetSpeedFactor (tbl k) + 0.1),
                         riskTolerance := min 1 (riskTolerance (tbl k) + 0.1) \<rparr>)
                else tbl
            | None \<Rightarrow> tbl)
      else tbl)"

text \<open>
  The conditions \<^verbatim>\<open>A && rng.next() < c\<close> of the source draw from the generator only
  when \<open>A\<close> holds; the model draws in the same cases.
\<close>

definition chaseTransition ::
  "BotProfile \<Rightarrow> BotController \<Rightarrow> PlayerState list \<Rightarrow> int \<Rightarrow> BotController \<times> int" where
  "chaseTransition prof c nearby seed =
     (let (hit, s1) = (if length nearby > 0
                       then (let (v, s) = rng_next seed in (collisionAggression prof > v, s))
                       else (False, seed))
      in if hit then (c\<lparr>state := chase, stateTimer := 0\<rparr>, s1)
         else if state c = chase \<and> (length nearby = 0 \<or> stateTimer c > 120)
         then (c\<lparr>state := race, stateTimer := 0\<rparr>, s1)
         else (c, s1))"

definition powerupTransition :: "BotController \<Rightarrow> PlayerState \<Rightarrow> int \<Rightarrow> BotController \<times> int" where
  "powerupTransition c botPlayer seed =
     (if speedBoostTimer botPlayer > 0 \<or> hasShield botPlayer \<or> jumpBoostTimer botPlayer > 0
      then (let (v, s1) = rng_next seed
            in if v < 0.1 then (c\<lparr>state := usePowerup, stateTimer := 0\<rparr>, s1) else (c, s1))
      else (c, seed))"

definition updateState ::
  "ProfileTable \<Rightarrow> BotController \<Rightarrow> PlayerState \<Rightarrow> PlayerState list \<Rightarrow> int
     \<Rightarrow> BotController \<times> ProfileTable \<times> int" where
  "updateState tbl c botPlayer allPlayers seed =
     (if stunTimer botPlayer > 0 then (c\<lparr>state := recover, stateTimer := 0\<rparr>, tbl, seed)
      else (let nearby = nearbyPlayers botPlayer allPlayers;
                tbl1 = adaptProfile tbl (profile c) botPlayer allPlayers;
                c1 = (if state c = recover \<and> stunTimer botPlayer \<le> 0
                      then c\<lparr>state := race, stateTimer := 0\<rparr> else c);
                (c2, s2) = chaseTransition (tbl1 (profile c1)) c1 nearby seed;
                (c3, s3) = powerupTransition c2 botPlayer s2;
                c4 = (if stateTimer c3 > 180 then c3\<lparr>state := race, stateTimer := 0\<rparr> else c3)
            in (c4, tbl1, s3)))"

subsection \<open>Input synthesis\<close>

text \<open>
  \<^verbatim>\<open>scoreLanes\<close>: the score of lane \<open>i\<close>, then the loop over the lanes (by recursion on
  the number of lanes left), then the scan for the first lane with the highest score
  (\<^verbatim>\<open>bestScore\<close> starts at \<^verbatim>\<open>-Infinity\<close>, here \<^const>\<open>None\<close>).
\<close>

definition laneScore :: "BotProfile \<Rightarrow> TrackSegment \<Rightarrow> int \<Rightarrow> int \<Rightarrow> real \<times> int" where
  "laneScore prof seg i seed =
     (let centerDist = \<bar>i - lanes seg div 2\<bar>;
          sc1 = real_of_int (lanes seg - centerDist) * optimalLineWeight prof * 10;
          sc2 = fold (\<lambda>obs sc. if obsLane obs = i then sc - 20 * collisionAvoidance prof else sc)
                  (obstacles seg) sc1;
          sc3 = fold (\<lambda>pu sc. if puLane pu = i then sc + 15 * boostSeekRange prof / 200 else sc)
                  (powerups seg) sc2;
          (r, s1) = nextFloat (- 5) 5 seed
      in (sc3 + r, s1))"

fun laneScores :: "BotProfile \<Rightarrow> TrackSegment \<Rightarrow> int \<Rightarrow> nat \<Rightarrow> int \<Rightarrow> real list \<times> int" where
  "laneScores prof seg i 0 seed = ([], seed)"
| "laneScores prof seg i (Suc n) seed =
     (let (sc, s1) = laneScore prof seg i seed;
          (rest, s2) = laneScores prof seg (i + 1) n s1
      in (sc # rest, s2))"

fun bestLaneScan :: "real list \<Rightarrow> int \<Rightarrow> int \<times> real option \<Rightarrow> int" where
  "bestLaneScan [] i (bestLane, bestScore) = bestLane"
| "bestLaneScan (s # ss) i (bestLane, bestScore) =
     (if (case bestScore of None \<Rightarrow> True | Some b \<Rightarrow> s > b)
      then bestLaneScan ss (i + 1) (i, Some s)
      else bestLaneScan ss (i + 1) (bestLane, bestScore))"

definition scoreLanes :: "BotProfile \<Rightarrow> TrackSegment \<Rightarrow> int \<Rightarrow> int \<times> int" where
  "scoreLanes prof seg seed =
     (let (scores, s1) = laneScores prof seg 0 (nat (lanes seg)) seed
      in (bestLaneScan scores 0 (0, None), s1))"

definition raceInput ::
  "BotProfile \<Rightarrow> BotController \<Rightarrow> PlayerState \<Rightarrow> TrackSegment \<Rightarrow> int
     \<Rightarrow> InputState \<times> BotController \<times> int" where
  "raceInput prof c botPlayer seg seed =
     (let (best, s1) = scoreLanes prof seg seed;
          c1 = c\<lparr>targetLane := best\<rparr>;
          targetX = real_of_int (targetLane c1) * LANE_WIDTH + LANE_WIDTH / 2;
          diff = targetX - xPos botPlayer;
          threshold = 10;
          inp1 = (if diff < - threshold then neutralInput\<lparr>left := True\<rparr>
                  else if diff > threshold then neutralInput\<lparr>right := True\<rparr>
                  else neutralInput);
          (onRamp, s2) = (if segType seg = Some ramp
                          then (let (v, s) = rng_next s1 in (v < jumpTimingPrecision prof, s))
                          else (False, s1));
          (jmp, s3) = (if onRamp then (True, s2)
                       else (let (v, s) = rng_next s2 in (v < jumpFrequency prof / 120, s)))
      in ((if jmp then inp1\<lparr>jump := True\<rparr> else inp1), c1, s3))"

text \<open>
  \<^verbatim>\<open>findSafestLane\<close>. \<^verbatim>\<open>new Array(lanes)\<close> throws a \<^verbatim>\<open>RangeError\<close> for a negative
  length, which nothing catches: the result is \<^const>\<open>None\<close> then. \<^verbatim>\<open>minDanger\<close>
  starts at \<^verbatim>\<open>Infinity\<close>, here \<^const>\<open>None\<close>.
\<close>

fun safestLaneScan :: "real list \<Rightarrow> int \<Rightarrow> int \<times> real option \<Rightarrow> int" where
  "safestLaneScan [] i (safestLane, minDanger) = safestLane"
| "safestLaneScan (d # ds) i (safestLane, minDanger) =
     (if (case minDanger of None \<Rightarrow> True | Some m \<Rightarrow> d < m)
      then safestLaneScan ds (i + 1) (i, Some d)
      else safestLaneScan ds (i + 1) (safestLane, minDanger))"

definition findSafestLane :: "PlayerState \<Rightarrow> TrackSegment \<Rightarrow> int option" where
  "findSafestLane botPlayer seg =
     (if lanes seg < 0 then None
      else (let dangerPerLane =
                  fold (\<lambda>obs d. if obsLane obs \<ge> 0 \<and> obsLane obs < lanes seg
                                then d[nat (obsLane obs) := d ! nat (obsLane obs) + 10] else d)
                    (obstacles seg) (replicate (nat (lanes seg)) 0)
            in Some (safestLaneScan dangerPerLane 0 (lane botPlayer, None))))"

definition avoidObstacleInput ::
  "BotProfile \<Rightarrow> PlayerState \<Rightarrow> TrackSegment \<Rightarrow> int \<Rightarrow> (InputState \<times> int) option" where
  "avoidObstacleInput prof botPlayer seg seed =
     (case findSafestLane botPlayer seg of
        None \<Rightarrow> None
      | Some safeLane \<Rightarrow>
          (let targetX = real_of_int safeLane * LANE_WIDTH + LANE_WIDTH / 2;
               diff = targetX - xPos botPlayer;
               inp1 = (if diff < - 5 then neutralInput\<lparr>left := True\<rparr>
                       else if diff > 5 then neutralInput\<lparr>right := True\<rparr>
                       else neutralInput);
               (v, s1) = rng_next seed
           in Some ((if v < riskTolerance prof * 0.5 then inp1\<lparr>jump := True\<rparr> else inp1), s1)))"

text \<open>
  \<^verbatim>\<open>chaseInput\<close>. \<^verbatim>\<open>Array.prototype.sort\<close> is stable, as \<^const>\<open>sort_key\<close> is, so
  \<^verbatim>\<open>targets[0]\<close> is the first of the closest players in roster order.
\<close>

definition chaseInput ::
  "BotProfile \<Rightarrow> PlayerState \<Rightarrow> PlayerState list \<Rightarrow> int \<Rightarrow> InputState \<times> int" where
  "chaseInput prof botPlayer allPlayers seed =
     (let targets = sort_key (\<lambda>p. \<bar>distanceTraveled p - distanceTraveled botPlayer\<bar>
                                     + \<bar>xPos p - xPos botPlayer\<bar>)
                      (filter (\<lambda>p. playerId p \<noteq> playerId botPlayer \<and> \<not> finished p) allPlayers);
          inp1 = (case targets of
                    [] \<Rightarrow> neutralInput
                  | target # _ \<Rightarrow>
                      (let dx = xPos target - xPos botPlayer
                       in if collisionAggression prof > 0.5
                          then (if dx < - 5 then neutralInput\<lparr>left := True\<rparr>
                                else if dx > 5 then neutralInput\<lparr>right := True\<rparr>
                                else neutralInput)
                          else (if dx < - 5 then neutralInput\<lparr>right := True\<rparr>
                                else if dx > 5 then neutralInput\<lparr>left := True\<rparr>
                                else neutralInput)));
          (v, s1) = rng_next seed
      in ((if v < 0.02 then inp1\<lparr>jump := True\<rparr> else inp1), s1))"

definition powerupInput :: "PlayerState \<Rightarrow> int \<Rightarrow> InputState \<times> int" where
  "powerupInput botPlayer seed =
     (let (jmp, s1) = (if jumpBoostTimer botPlayer > 0
                       then (let (v, s) = rng_next seed in (v < 0.05, s))
                       else (False, seed));
          inp1 = (if jmp then neutralInput\<lparr>jump := True\<rparr> else neutralInput);
          inp2 = (if speedBoostTimer botPlayer > 0
                  then (if xPos botPlayer < SLIDE_WIDTH / 2 - 10 then inp1\<lparr>right := True\<rparr>
                        else if xPos botPlayer > SLIDE_WIDTH / 2 + 10 then inp1\<lparr>left := True\<rparr>
                        else inp1)
                  else inp1)
      in (inp2, s1))"

definition generateInput ::
  "BotProfile \<Rightarrow> BotController \<Rightarrow> PlayerState \<Rightarrow> PlayerState list \<Rightarrow> TrackSegment \<Rightarrow> int
     \<Rightarrow> (InputState \<times> BotController \<times> int) option" where
  "generateInput prof c botPlayer allPlayers seg seed =
     (case state c of
        race \<Rightarrow> Some (raceInput prof c botPlayer seg seed)
      | avoidObstacle \<Rightarrow>
          (case avoidObstacleInput prof botPlayer seg seed of
             None \<Rightarrow> None
           | Some (inp, s1) \<Rightarrow> Some (inp, c, s1))
      | chase \<Rightarrow> (let (inp, s1) = chaseInput prof botPlayer allPlayers seed in Some (inp, c, s1))
      | usePowerup \<Rightarrow> (let (inp, s1) = powerupInput botPlayer seed in Some (inp, c, s1))
      | recover \<Rightarrow> Some (neutralInput, c, seed))"

subsection \<open>\<^verbatim>\<open>update\<close>\<close>

text \<open>\<^verbatim>\<open>// Add steering jitter for human-like imprecision\<close>\<close>

definition steeringJitterStep :: "BotProfile \<Rightarrow> InputState \<Rightarrow> int \<Rightarrow> InputState \<times> int" where
  "steeringJitterStep prof delayedInput seed =
     (let (v, s1) = rng_next seed
      in if v < steeringJitter prof
         then (let (w, s2) = rng_next s1
               in if w > 0.5 then (delayedInput\<lparr>left := \<not> left delayedInput\<rparr>, s2)
                  else (delayedInput\<lparr>right := \<not> right delayedInput\<rparr>, s2))
         else (delayedInput, s1))"

text \<open>\<^verbatim>\<open>// Random mistakes\<close>\<close>

definition randomMistakeStep :: "BotProfile \<Rightarrow> InputState \<Rightarrow> int \<Rightarrow> InputState \<times> int" where
  "randomMistakeStep prof delayedInput seed =
     (let (v, s1) = rng_next seed
      in if v < mistakeChance prof / 60
         then (let (w, s2) = rng_next s1
               in (delayedInput\<lparr>left := w > 0.5, right := \<not> w > 0.5\<rparr>, s2))
         else (delayedInput, s1))"

text \<open>The two blocks together, as \<^verbatim>\<open>update\<close> runs them on the delayed input.\<close>

definition humanLikeness :: "BotProfile \<Rightarrow> InputState \<Rightarrow> int \<Rightarrow> InputState \<times> int" where
  "humanLikeness prof delayedInput seed =
     (let (inp1, s1) = steeringJitterStep prof delayedInput seed
      in randomMistakeStep prof inp1 s1)"

text \<open>
  One call of \<^verbatim>\<open>update\<close>: the input for this frame, the controller, the profile table
  and the generator after the call; \<^const>\<open>None\<close> when the call throws. The raw input
  is pushed at the end of the reaction buffer and the first entry is shifted out.
\<close>

definition update ::
  "ProfileTable \<Rightarrow> BotController \<Rightarrow> PlayerState \<Rightarrow> PlayerState list \<Rightarrow> TrackSegment \<Rightarrow> int
     \<Rightarrow> (InputState \<times> BotController \<times> ProfileTable \<times> int) option" where
  "update tbl c botPlayer allPlayers seg seed =
     (let c0 = c\<lparr>frameCount := frameCount c + 1, stateTimer := stateTimer c + 1\<rparr>;
          (c1, tbl1, s1) = updateState tbl c0 botPlayer allPlayers seed
      in case generateInput (tbl1 (profile c1)) c1 botPlayer allPlayers seg s1 of
           None \<Rightarrow> None
         | Some (rawInput, c2, s2) \<Rightarrow>
             (case reactionBuffer c2 @ [rawInput] of
                [] \<Rightarrow> None
              | delayedInput # rest \<Rightarrow>
                  (let c3 = c2\<lparr>reactionBuffer := rest\<rparr>;
                       (inp2, s4) = humanLikeness (tbl1 (profile c3)) delayedInput s2
                   in Some (inp2, c3, tbl1, s4))))"

text \<open>
  A scenario is what one call of \<^verbatim>\<open>update\<close> is given besides the generator: the bot,
  the roster and the current segment. \<open>runUpdates\<close> calls \<^verbatim>\<open>update\<close> once per scenario
  of a list, on the same controller, table and generator, and collects the inputs, as the
  driver and the unit tests do in their loops.
\<close>

type_synonym Scenario = "PlayerState \<times> PlayerState list \<times> TrackSegment"

fun runUpdates ::
  "ProfileTable \<Rightarrow> BotController \<Rightarrow> int \<Rightarrow> Scenario list
     \<Rightarrow> (InputState list \<times> BotController \<times> ProfileTable \<times> int) option" where
  "runUpdates tbl c seed [] = Some ([], c, tbl, seed)"
| "runUpdates tbl c seed ((botPlayer, allPlayers, seg) # rest) =
     (case update tbl c botPlayer allPlayers seg seed of
        None \<Rightarrow> None
      | Some (inp, c1, tbl1, s1) \<Rightarrow>
          (case runUpdates tbl1 c1 s1 rest of
             None \<Rightarrow> None
           | Some (inps, c2, tbl2, s2) \<Rightarrow> Some (inp # inps, c2, tbl2, s2)))"

subsection \<open>The profile fields that adaptive tuning writes\<close>

text \<open>
  \<^verbatim>\<open>updateState\<close> assigns to \<^verbatim>\<open>targetSpeedFactor\<close> and \<^verbatim>\<open>riskTolerance\<close> only.
  Two tables agree when they differ at most in these two fields of their profiles.
\<close>

definition stripTuned :: "BotProfile \<Rightarrow> BotProfile" where
  "stripTuned prof = prof\<lparr>targetSpeedFactor := 0, riskTolerance := 0\<rparr>"

definition tablesAgree :: "ProfileTable \<Rightarrow> ProfileTable \<Rightarrow> bool" where
  "tablesAgree tbl tbl' \<longleftrightarrow> (\<forall>k. stripTuned (tbl k) = stripTuned (tbl' k))"

subsection \<open>The scenario of the unit tests (\<^verbatim>\<open>src/tests/unit/ai.test.ts\<close>)\<close>

definition defaultSegment :: TrackSegment where
  "defaultSegment =
     \<lparr> segType = Some straight, segLength = 500, lanes = 5,
       obstacles = [\<lparr> obsType = Some barrel, obsLane = 2, obsPosition = 0.5,
                      moving = None, moveRange = None \<rparr>],
       powerups = [\<lparr> puType = Some speed_boost, puLane = 0, puPosition = 0.3 \<rparr>],
       friction = 0.98, slope = - 0.5 \<rparr>"

definition testBot :: "BotProfileType \<Rightarrow> PlayerState" where
  "testBot k = createPlayerState ''b1'' ''Bot'' 2 True 1 (Some k)"

definition testPlayers :: "BotProfileType \<Rightarrow> PlayerState list" where
  "testPlayers k = [createPlayerState ''p1'' ''Player'' 2 False 0 None, testBot k]"

section \<open>The replay codec (\<^verbatim>\<open>src/game/replayCodec.ts\<close>)\<close>

record ReplayFrame =
  tick :: int
  inputs :: InputState

text \<open>
  \<^verbatim>\<open>Partial<GameSettings>\<close>: every field of the settings may be absent.
\<close>

record PartialGameSettings =
  optMasterVolume :: "real option"
  optMusicVolume :: "real option"
  optSfxVolume :: "real option"
  optMuted :: "bool option"
  optControlScheme :: "ControlScheme option"
  optQuality :: "QualityLevel option"
  optBotCount :: "int option"
  optMatchLength :: "real option"
  optTiltEnabled :: "bool option"

definition emptySettings :: PartialGameSettings where
  "emptySettings =
     \<lparr> optMasterVolume = None, optMusicVolume = None, optSfxVolume = None, optMuted = None,
       optControlScheme = None, optQuality = None, optBotCount = None, optMatchLength = None,
       optTiltEnabled = None \<rparr>"

record ReplayData =
  version :: int
  seed :: int
  mode :: GameMode
  settings :: PartialGameSettings
  frames :: "ReplayFrame list"
  startTime :: int
  playerName :: string

subsection \<open>The platform: exceptions, \<^verbatim>\<open>btoa\<close> and \<^verbatim>\<open>atob\<close>\<close>

text \<open>
  The codec calls four functions of the JavaScript platform: \<^verbatim>\<open>JSON.stringify\<close>,
  \<^verbatim>\<open>btoa\<close>, \<^verbatim>\<open>atob\<close> and \<^verbatim>\<open>JSON.parse\<close>. They are modelled here from their
  standards (ECMA-262, ECMA-404 and the forgiving-base64 algorithms of the HTML and Infra
  standards). A thrown exception is a value of \<open>exn\<close>, returned as \<^const>\<open>Inl\<close>.
\<close>

datatype exn = InvalidCharacterError | SyntaxError | TypeError

definition b64chars :: string where
  "b64chars = ''ABCDEFGHIJKLMNOPQRSTUVWXYZabcdefghijklmnopqrstuvwxyz0123456789+/''"

definition b64char :: "nat \<Rightarrow> char" where
  "b64char n = b64chars ! n"

definition b64val :: "char \<Rightarrow> nat option" where
  "b64val c = map_of (zip b64chars [0..<length b64chars]) c"

text \<open>
  \<^verbatim>\<open>btoa\<close> on a string of bytes (a \<^typ>\<open>char\<close> is a byte, so the
  \<^verbatim>\<open>InvalidCharacterError\<close> for code points above 255 cannot occur): three bytes
  give four characters, and a last group of one or two bytes is padded with \<^verbatim>\<open>=\<close>.
\<close>

fun sextets :: "nat list \<Rightarrow> nat list" where
  "sextets [] = []"
| "sextets [a] = [a div 4, (a mod 4) * 16]"
| "sextets [a, b] = [a div 4, (a mod 4) * 16 + b div 16, (b mod 16) * 4]"
| "sextets (a # b # c # rest) =
     [a div 4, (a mod 4) * 16 + b div 16, (b mod 16) * 4 + c div 64, c mod 64] @ sextets rest"

definition btoa :: "string \<Rightarrow> string" where
  "btoa s = map b64char (sextets (map of_char s))
            @ replicate ((3 - length s mod 3) mod 3) (CHR ''='')"

text \<open>
  \<^verbatim>\<open>atob\<close>, the forgiving-base64 decode: ASCII whitespace is removed; if the length is
  then a multiple of four, one or two trailing \<^verbatim>\<open>=\<close> are removed; a length of 1 modulo
  4, or a character outside the alphabet, is an \<^verbatim>\<open>InvalidCharacterError\<close>; four
  characters give three bytes, and the bits left over in a last group of two or three
  characters are dropped. The input is a string of bytes here; a character above 255 of a
  JavaScript string is outside the alphabet as well.
\<close>

definition isAsciiWhitespace :: "char \<Rightarrow> bool" where
  "isAsciiWhitespace c \<longleftrightarrow> c \<in> {CHR 0x09, CHR 0x0A, CHR 0x0C, CHR 0x0D, CHR 0x20}"

definition stripPadding :: "string \<Rightarrow> string" where
  "stripPadding d =
     (if d \<noteq> [] \<and> last d = CHR ''=''
      then (if butlast d \<noteq> [] \<and> last (butlast d) = CHR ''='' then butlast (butlast d)
            else butlast d)
      else d)"

fun unsextets :: "nat list \<Rightarrow> nat list" where
  "unsextets (p # q # r # s # rest) =
     [p * 4 + q div 16, (q mod 16) * 16 + r div 4, (r mod 4) * 64 + s] @ unsextets rest"
| "unsextets [p, q, r] = [p * 4 + q div 16, (q mod 16) * 16 + r div 4]"
| "unsextets [p, q] = [p * 4 + q div 16]"
| "unsextets [p] = []"
| "unsextets [] = []"

definition atob :: "string \<Rightarrow> exn + string" where
  "atob encoded =
     (let d0 = filter (\<lambda>c. \<not> isAsciiWhitespace c) encoded;
          d = (if length d0 mod 4 = 0 then stripPadding d0 else d0)
      in if length d mod 4 = 1 then Inl InvalidCharacterError
         else (case those (map b64val d) of
                 None \<Rightarrow> Inl InvalidCharacterError
               | Some sx \<Rightarrow> Inr (map char_of (unsextets sx))))"

subsection \<open>The platform: JSON values and \<^verbatim>\<open>JSON.parse\<close>\<close>

text \<open>
  A JavaScript string is a list of UTF-16 code units, here natural numbers; \<open>jsString\<close>
  is the JavaScript string of a byte string. A JSON number is a \<^typ>\<open>real\<close>, the exact
  value of its literal.
\<close>

type_synonym jsstring = "nat list"

definition jsString :: "string \<Rightarrow> jsstring" where
  "jsString s = map of_char s"

datatype json =
    JNull
  | JBool bool
  | JNum real
  | JStr jsstring
  | JArr "json list"
  | JObj "(jsstring \<times> json) list"

datatype token =
    TLBrace | TRBrace | TLBrack | TRBrack | TColon | TComma
  | TStr jsstring | TNum real | TTrue | TFalse | TNull

definition isDigit :: "char \<Rightarrow> bool" where
  "isDigit c \<longleftrightarrow> 48 \<le> (of_char c :: nat) \<and> (of_char c :: nat) \<le> 57"

definition natOfDigits :: "string \<Rightarrow> nat" where
  "natOfDigits ds = foldl (\<lambda>acc c. acc * 10 + (of_char c - 48)) 0 ds"

definition hexVal :: "char \<Rightarrow> nat option" where
  "hexVal c =
     (let n = (of_char c :: nat)
      in if 48 \<le> n \<and> n \<le> 57 then Some (n - 48)
         else if 65 \<le> n \<and> n \<le> 70 then Some (n - 55)
         else if 97 \<le> n \<and> n \<le> 102 then Some (n - 87)
         else None)"

definition escapeVal :: "char \<Rightarrow> nat option" where
  "escapeVal e =
     (if e = CHR 0x22 then Some 0x22 else if e = CHR 0x5C then Some 0x5C
      else if e = CHR ''/'' then Some 0x2F else if e = CHR ''b'' then Some 8
      else if e = CHR ''f'' then Some 12 else if e = CHR ''n'' then Some 10
      else if e = CHR ''r'' then Some 13 else if e = CHR ''t'' then Some 9
      else None)"

text \<open>
  The rest of a string literal after its opening quote, read one character at a time: the
  code units of the string and the input after the closing quote. The state says whether
  the reader is in plain text, just after a backslash, or inside the four hexadecimal
  digits of a \<^verbatim>\<open>\u\<close> escape (with the number of digits still to come and the value
  so far). A raw control character, an unknown escape or a missing closing quote is an
  error.
\<close>

datatype strState = SPlain | SEsc | SHex nat nat

fun lexStr :: "strState \<Rightarrow> string \<Rightarrow> (jsstring \<times> string) option" where
  "lexStr st [] = None"
| "lexStr SPlain (c # cs) =
     (if c = CHR 0x22 then Some ([], cs)
      else if c = CHR 0x5C then lexStr SEsc cs
      else if (of_char c :: nat) < 32 then None
      else map_option (\<lambda>(s, r). (of_char c # s, r)) (lexStr SPlain cs))"
| "lexStr SEsc (e # cs) =
     (if e = CHR ''u'' then lexStr (SHex 3 0) cs
      else (case escapeVal e of
              None \<Rightarrow> None
            | Some u \<Rightarrow> map_option (\<lambda>(s, r). (u # s, r)) (lexStr SPlain cs)))"
| "lexStr (SHex n acc) (h # cs) =
     (case hexVal h of
        None \<Rightarrow> None
      | Some d \<Rightarrow>
          (case n of
             0 \<Rightarrow> map_option (\<lambda>(s, r). ((acc * 16 + d) # s, r)) (lexStr SPlain cs)
           | Suc m \<Rightarrow> lexStr (SHex m (acc * 16 + d)) cs))"

definition lexString :: "string \<Rightarrow> (jsstring \<times> string) option" where
  "lexString cs = lexStr SPlain cs"

text \<open>
  A number literal at the start of the input: an optional minus, an integer part without
  a leading zero (or a single zero), an optional fraction, an optional exponent. Each part
  returns what it read and the rest of the input.
\<close>

definition lexSign :: "string \<Rightarrow> bool \<times> string" where
  "lexSign cs =
     (case cs of
        [] \<Rightarrow> (False, cs)
      | c # r \<Rightarrow> if c = CHR ''-'' then (True, r) else (False, cs))"

definition lexInt :: "string \<Rightarrow> string \<times> string" where
  "lexInt cs =
     (case cs of
        [] \<Rightarrow> ([], cs)
      | c # r \<Rightarrow> if c = CHR ''0'' then ([c], r)
                 else (takeWhile isDigit cs, dropWhile isDigit cs))"

definition lexFrac :: "string \<Rightarrow> string \<times> string" where
  "lexFrac cs =
     (case cs of
        [] \<Rightarrow> ([], cs)
      | c # r \<Rightarrow> if c = CHR ''.'' \<and> takeWhile isDigit r \<noteq> []
                 then (takeWhile isDigit r, dropWhile isDigit r)
                 else ([], cs))"

definition lexExpSign :: "string \<Rightarrow> bool \<times> string" where
  "lexExpSign cs =
     (case cs of
        [] \<Rightarrow> (False, cs)
      | c # r \<Rightarrow> if c = CHR ''-'' then (True, r)
                 else if c = CHR ''+'' then (False, r)
                 else (False, cs))"

definition lexExponent :: "string \<Rightarrow> int \<times> string" where
  "lexExponent cs =
     (case cs of
        [] \<Rightarrow> (0, cs)
      | e # r \<Rightarrow>
          if e = CHR ''e'' \<or> e = CHR ''E''
          then (let (neg, r1) = lexExpSign r;
                    ds = takeWhile isDigit r1
                in if ds = [] then (0, cs)
                   else ((if neg then - int (natOfDigits ds) else int (natOfDigits ds)),
                         dropWhile isDigit r1))
          else (0, cs))"

definition lexNumber :: "string \<Rightarrow> (real \<times> string) option" where
  "lexNumber cs =
     (let (neg, cs1) = lexSign cs;
          (intDs, cs2) = lexInt cs1
      in if intDs = [] then None
         else (let (fracDs, cs3) = lexFrac cs2;
                   (ex, cs4) = lexExponent cs3;
                   mant = real (natOfDigits intDs)
                          + real (natOfDigits fracDs) / 10 ^ length fracDs;
                   x = (if ex \<ge> 0 then mant * 10 ^ nat ex else mant / 10 ^ nat (- ex))
               in Some ((if neg then - x else x), cs4)))"

definition isJsonWhitespace :: "char \<Rightarrow> bool" where
  "isJsonWhitespace c \<longleftrightarrow> c \<in> {CHR 0x09, CHR 0x0A, CHR 0x0D, CHR 0x20}"

lemma lexStr_length: "lexStr st cs = Some (s, rest) \<Longrightarrow> length rest \<le> length cs"
proof (induction cs arbitrary: st s rest)
  case Nil
  then show ?case by simp
next
  case (Cons c cs)
  show ?case
  proof (cases st)
    case SPlain
    with Cons.prems Cons.IH [of SPlain] Cons.IH [of SEsc] show ?thesis
      by (fastforce split: if_splits)
  next
    case SEsc
    with Cons.prems Cons.IH [of SPlain] Cons.IH [of "SHex 3 0"] show ?thesis
      by (fastforce split: if_splits option.splits)
  next
    case (SHex n acc)
    with Cons.prems Cons.IH [of SPlain] Cons.IH [of "SHex m a" for m a] show ?thesis
      by (fastforce split: option.splits nat.splits)
  qed
qed

lemma lexSign_length: "length (snd (lexSign cs)) \<le> length cs"
  by (simp add: lexSign_def split: list.splits)

lemma lexInt_length:
  "length (snd (lexInt cs)) \<le> length cs"
  "fst (lexInt cs) \<noteq> [] \<Longrightarrow> length (snd (lexInt cs)) < length cs"
proof -
  show "length (snd (lexInt cs)) \<le> length cs"
  proof (cases cs)
    case Nil
    then show ?thesis by (simp add: lexInt_def)
  next
    case (Cons d r)
    with length_dropWhile_le [of isDigit cs] show ?thesis by (simp add: lexInt_def)
  qed
  assume "fst (lexInt cs) \<noteq> []"
  then show "length (snd (lexInt cs)) < length cs"
  proof (cases cs)
    case Nil
    with \<open>fst (lexInt cs) \<noteq> []\<close> show ?thesis by (simp add: lexInt_def)
  next
    case (Cons d r)
    show ?thesis
    proof (cases "d = CHR ''0''")
      case True
      with Cons show ?thesis by (simp add: lexInt_def)
    next
      case False
      with Cons \<open>fst (lexInt cs) \<noteq> []\<close> have "takeWhile isDigit cs \<noteq> []"
        by (simp add: lexInt_def)
      then have "length (dropWhile isDigit cs) < length cs"
        by (metis length_append takeWhile_dropWhile_id length_greater_0_conv
              less_add_same_cancel2)
      with Cons False show ?thesis by (simp add: lexInt_def)
    qed
  qed
qed

lemma lexFrac_length: "length (snd (lexFrac cs)) \<le> length cs"
proof (cases cs)
  case Nil
  then show ?thesis by (simp add: lexFrac_def)
next
  case (Cons c r)
  with length_dropWhile_le [of isDigit r] show ?thesis by (simp add: lexFrac_def)
qed

lemma lexExpSign_length: "length (snd (lexExpSign cs)) \<le> length cs"
  by (simp add: lexExpSign_def split: list.splits)

lemma lexExponent_length: "length (snd (lexExponent cs)) \<le> length cs"
proof (cases cs)
  case Nil
  then show ?thesis by (simp add: lexExponent_def)
next
  case (Cons e r)
  have "length (dropWhile isDigit (snd (lexExpSign r))) \<le> length (snd (lexExpSign r))"
    by (rule length_dropWhile_le)
  with lexExpSign_length [of r] have "length (dropWhile isDigit (snd (lexExpSign r))) \<le> length r"
    by simp
  with Cons show ?thesis by (simp add: lexExponent_def Let_def case_prod_beta)
qed

lemma lexNumber_length:
  assumes "lexNumber cs = Some (x, rest)"
  shows "length rest < length cs"
proof -
  let ?cs1 = "snd (lexSign cs)"
  let ?cs2 = "snd (lexInt ?cs1)"
  let ?cs3 = "snd (lexFrac ?cs2)"
  have ne: "fst (lexInt ?cs1) \<noteq> []" and rest: "rest = snd (lexExponent ?cs3)"
    using assms by (auto simp: lexNumber_def Let_def case_prod_beta split: if_splits)
  from lexExponent_length [of ?cs3] lexFrac_length [of ?cs2] lexInt_length(2) [OF ne]
       lexSign_length [of cs] rest
  show ?thesis by simp
qed

text \<open>
  The tokens of a JSON text. Whitespace between tokens is skipped; any other character
  that starts no token is an error.
\<close>

function lex :: "string \<Rightarrow> token list option" where
  "lex [] = Some []"
| "lex (c # cs) =
     (if isJsonWhitespace c then lex cs
      else if c = CHR ''{'' then map_option ((#) TLBrace) (lex cs)
      else if c = CHR ''}'' then map_option ((#) TRBrace) (lex cs)
      else if c = CHR ''['' then map_option ((#) TLBrack) (lex cs)
      else if c = CHR '']'' then map_option ((#) TRBrack) (lex cs)
      else if c = CHR '':'' then map_option ((#) TColon) (lex cs)
      else if c = CHR '','' then map_option ((#) TComma) (lex cs)
      else if c = CHR 0x22
      then (case lexString cs of
              None \<Rightarrow> None
            | Some (s, rest) \<Rightarrow> map_option ((#) (TStr s)) (lex rest))
      else if c = CHR ''-'' \<or> isDigit c
      then (case lexNumber (c # cs) of
              None \<Rightarrow> None
            | Some (x, rest) \<Rightarrow> map_option ((#) (TNum x)) (lex rest))
      else if take 4 (c # cs) = ''true'' then map_option ((#) TTrue) (lex (drop 3 cs))
      else if take 5 (c # cs) = ''false'' then map_option ((#) TFalse) (lex (drop 4 cs))
      else if take 4 (c # cs) = ''null'' then map_option ((#) TNull) (lex (drop 3 cs))
      else None)"
  by pat_completeness auto
termination
proof (relation "measure length", goal_cases)
  case 1
  show ?case by simp
next
  case (9 c cs x2 s rest)
  then show ?case using lexStr_length [of SPlain cs s rest] by (simp add: lexString_def)
next
  case (10 c cs x2 x rest)
  then show ?case using lexNumber_length [of "c # cs" x rest] by simp
qed simp_all

declare lex.simps [simp del]

text \<open>
  The parser reads the tokens one at a time and keeps the containers that are still open
  on a stack: an open array with the elements read so far, an open object with the members
  read so far, or an open object with a key whose value is still to come (all in reverse
  order of reading). The state says what may come next.
\<close>

datatype container =
    InArr "json list"
  | InObj "(jsstring \<times> json) list"
  | InMember "(jsstring \<times> json) list" jsstring

datatype pstate =
    PValue | PArrFirst | PObjFirst | PObjKey | PColon | PAfter | PDone json

text \<open>A complete value goes to the innermost open container, or is the result.\<close>

fun deliver :: "json \<Rightarrow> container list \<Rightarrow> (pstate \<times> container list) option" where
  "deliver v [] = Some (PDone v, [])"
| "deliver v (InArr vs # st) = Some (PAfter, InArr (v # vs) # st)"
| "deliver v (InMember kvs k # st) = Some (PAfter, InObj ((k, v) # kvs) # st)"
| "deliver v (InObj kvs # st) = None"

fun startValue :: "token \<Rightarrow> container list \<Rightarrow> (pstate \<times> container list) option" where
  "startValue TLBrack st = Some (PArrFirst, InArr [] # st)"
| "startValue TLBrace st = Some (PObjFirst, InObj [] # st)"
| "startValue (TStr s) st = deliver (JStr s) st"
| "startValue (TNum x) st = deliver (JNum x) st"
| "startValue TTrue st = deliver (JBool True) st"
| "startValue TFalse st = deliver (JBool False) st"
| "startValue TNull st = deliver JNull st"
| "startValue _ st = None"

fun parseStep :: "pstate \<times> container list \<Rightarrow> token \<Rightarrow> (pstate \<times> container list) option" where
  "parseStep (PValue, st) t = startValue t st"
| "parseStep (PArrFirst, InArr vs # st) TRBrack = deliver (JArr (rev vs)) st"
| "parseStep (PArrFirst, st) t = startValue t st"
| "parseStep (PObjFirst, InObj kvs # st) TRBrace = deliver (JObj (rev kvs)) st"
| "parseStep (PObjFirst, InObj kvs # st) (TStr k) = Some (PColon, InMember kvs k # st)"
| "parseStep (PObjKey, InObj kvs # st) (TStr k) = Some (PColon, InMember kvs k # st)"
| "parseStep (PColon, st) TColon = Some (PValue, st)"
| "parseStep (PAfter, InArr vs # st) TComma = Some (PValue, InArr vs # st)"
| "parseStep (PAfter, InArr vs # st) TRBrack = deliver (JArr (rev vs)) st"
| "parseStep (PAfter, InObj kvs # st) TComma = Some (PObjKey, InObj kvs # st)"
| "parseStep (PAfter, InObj kvs # st) TRBrace = deliver (JObj (rev kvs)) st"
| "parseStep _ _ = None"

fun parseTokens :: "pstate \<times> container list \<Rightarrow> token list \<Rightarrow> json option" where
  "parseTokens (PDone v, []) [] = Some v"
| "parseTokens ps [] = None"
| "parseTokens ps (t # ts) =
     (case parseStep ps t of None \<Rightarrow> None | Some ps' \<Rightarrow> parseTokens ps' ts)"

definition JSON_parse :: "string \<Rightarrow> exn + json" where
  "JSON_parse jsonText =
     (case lex jsonText of
        None \<Rightarrow> Inl SyntaxError
      | Some ts \<Rightarrow>
          (case parseTokens (PValue, []) ts of
             None \<Rightarrow> Inl SyntaxError
           | Some v \<Rightarrow> Inr v))"

subsection \<open>The platform: property reads and \<^verbatim>\<open>ToInt32\<close>\<close>

text \<open>
  \<^verbatim>\<open>x.k\<close> for one of the keys that the codec reads (\<^verbatim>\<open>v\<close>, \<^verbatim>\<open>s\<close>, \<^verbatim>\<open>m\<close>,
  \<^verbatim>\<open>f\<close>, \<^verbatim>\<open>t\<close>, \<^verbatim>\<open>i\<close>) on a value that \<^verbatim>\<open>JSON.parse\<close> returned: a
  \<^verbatim>\<open>TypeError\<close> on \<^verbatim>\<open>null\<close>; the member on an object that has it (the last one,
  when the text repeated the key); \<^verbatim>\<open>undefined\<close>, here \<^const>\<open>None\<close>, in every
  other case, as no number, string, boolean, array or object prototype has a property of
  one of these names.
\<close>

fun getProp :: "json \<Rightarrow> jsstring \<Rightarrow> exn + json option" where
  "getProp JNull k = Inl TypeError"
| "getProp (JObj kvs) k = Inr (map_of (rev kvs) k)"
| "getProp x k = Inr None"

text \<open>
  \<^verbatim>\<open>ToInt32\<close> of the operand of \<^verbatim>\<open>&\<close>. \<^verbatim>\<open>undefined\<close> and \<^verbatim>\<open>null\<close> give 0, a
  boolean 0 or 1, a number its integer part modulo \<open>2 ^ 32\<close>. For a string, an array or
  an object JavaScript goes through \<^verbatim>\<open>ToPrimitive\<close> and the grammar of numeric string
  literals, or throws a \<^verbatim>\<open>TypeError\<close>; that conversion is the parameter \<open>coerce\<close> of
  this development (\<^const>\<open>None\<close> when it throws), so that everything proved here holds
  whatever the conversion returns.
\<close>

definition jsTruncate :: "real \<Rightarrow> int" where
  "jsTruncate x = (if x < 0 then - \<lfloor>- x\<rfloor> else \<lfloor>x\<rfloor>)"

fun valueToInt32 :: "(json \<Rightarrow> int option) \<Rightarrow> json option \<Rightarrow> exn + int" where
  "valueToInt32 coerce None = Inr 0"
| "valueToInt32 coerce (Some JNull) = Inr 0"
| "valueToInt32 coerce (Some (JBool b)) = Inr (if b then 1 else 0)"
| "valueToInt32 coerce (Some (JNum x)) = Inr (toInt32 (jsTruncate x))"
| "valueToInt32 coerce (Some v) =
     (case coerce v of None \<Rightarrow> Inl TypeError | Some n \<Rightarrow> Inr (toInt32 n))"

subsection \<open>\<^verbatim>\<open>encodeReplayToUrl\<close>\<close>

text \<open>
  \<^verbatim>\<open>JSON.stringify\<close> of an integer: its decimal digits, with a minus sign when it is
  negative. (JavaScript prints every integer of magnitude below \<open>10 ^ 21\<close> so.)
\<close>

fun showNat :: "nat \<Rightarrow> string" where
  "showNat n = (if n < 10 then [char_of (48 + n)]
                else showNat (n div 10) @ [char_of (48 + n mod 10)])"

declare showNat.simps [simp del]

definition showInt :: "int \<Rightarrow> string" where
  "showInt n = (if n < 0 then CHR ''-'' # showNat (nat (- n)) else showNat (nat n))"

definition modeName :: "GameMode \<Rightarrow> string" where
  "modeName m = (case m of classic \<Rightarrow> ''classic'' | timeTrial \<Rightarrow> ''timeTrial''
                 | chaos \<Rightarrow> ''chaos'' | custom \<Rightarrow> ''custom'')"

text \<open>
  The bitmask \<^verbatim>\<open>(left ? 1 : 0) | (right ? 2 : 0) | (jump ? 4 : 0)\<close>; the three operands
  have no bit in common, so the bitwise or is their sum.
\<close>

definition inputBits :: "InputState \<Rightarrow> int" where
  "inputBits inp = (if left inp then 1 else 0) + (if right inp then 2 else 0)
                   + (if jump inp then 4 else 0)"

text \<open>
  \<^verbatim>\<open>JSON.stringify(compact)\<close> for the object literal of the source: the keys
  \<^verbatim>\<open>v\<close>, \<^verbatim>\<open>s\<close>, \<^verbatim>\<open>m\<close>, \<^verbatim>\<open>f\<close> in this order, each frame an object with the
  keys \<^verbatim>\<open>t\<close> and \<^verbatim>\<open>i\<close>, and no whitespace.
\<close>

definition stringifyFrame :: "ReplayFrame \<Rightarrow> string" where
  \<open>stringifyFrame fr =
     ''{"t":'' @ showInt (tick fr) @ '',"i":'' @ showInt (inputBits (inputs fr)) @ ''}''\<close>

fun stringifyFrames :: "ReplayFrame list \<Rightarrow> string" where
  "stringifyFrames [] = []"
| "stringifyFrames [fr] = stringifyFrame fr"
| "stringifyFrames (fr # frs) = stringifyFrame fr @ '','' @ stringifyFrames frs"

definition stringifyCompact :: "ReplayData \<Rightarrow> string" where
  \<open>stringifyCompact replay =
     ''{"v":'' @ showInt (version replay) @ '',"s":'' @ showInt (seed replay)
       @ '',"m":"'' @ modeName (mode replay) @ ''","f":['' @ stringifyFrames (frames replay)
       @ '']}''\<close>

definition encodeReplayToUrl :: "ReplayData \<Rightarrow> string" where
  "encodeReplayToUrl replay = btoa (stringifyCompact replay)"

subsection \<open>\<^verbatim>\<open>decodeReplayFromUrl\<close>\<close>

text \<open>
  The object that \<^verbatim>\<open>decodeReplayFromUrl\<close> returns. The source copies \<^verbatim>\<open>compact.v\<close>,
  \<^verbatim>\<open>compact.s\<close>, \<^verbatim>\<open>compact.m\<close> and \<^verbatim>\<open>f.t\<close> into it as they are, so these fields
  hold whatever JSON value the text had there, or \<^verbatim>\<open>undefined\<close>.
\<close>

record DecodedFrame =
  dTick :: "json option"
  dInputs :: InputState

record DecodedReplay =
  dVersion :: "json option"
  dSeed :: "json option"
  dMode :: "json option"
  dSettings :: PartialGameSettings
  dFrames :: "DecodedFrame list"
  dStartTime :: int
  dPlayerName :: string

text \<open>The callback of \<^verbatim>\<open>compact.f.map\<close>, on one element of the array.\<close>

definition decodeFrame :: "(json \<Rightarrow> int option) \<Rightarrow> json \<Rightarrow> exn + DecodedFrame" where
  "decodeFrame coerce fr =
     (case getProp fr (jsString ''t'') of
        Inl e \<Rightarrow> Inl e
      | Inr t \<Rightarrow>
          (case getProp fr (jsString ''i'') of
             Inl e \<Rightarrow> Inl e
           | Inr i \<Rightarrow>
               (case valueToInt32 coerce i of
                  Inl e \<Rightarrow> Inl e
                | Inr n \<Rightarrow>
                    Inr \<lparr> dTick = t,
                          dInputs = \<lparr> left = (n mod 2 = 1), right = (n div 2 mod 2 = 1),
                                      jump = (n div 4 mod 2 = 1) \<rparr> \<rparr>)))"

fun decodeFrames :: "(json \<Rightarrow> int option) \<Rightarrow> json list \<Rightarrow> exn + DecodedFrame list" where
  "decodeFrames coerce [] = Inr []"
| "decodeFrames coerce (fr # frs) =
     (case decodeFrame coerce fr of
        Inl e \<Rightarrow> Inl e
      | Inr d \<Rightarrow>
          (case decodeFrames coerce frs of
             Inl e \<Rightarrow> Inl e
           | Inr ds \<Rightarrow> Inr (d # ds)))"

text \<open>
  The body of the \<^verbatim>\<open>try\<close> block, with every exception that can leave it as a value:
  \<^verbatim>\<open>atob\<close> and \<^verbatim>\<open>JSON.parse\<close> throw on a malformed text, the property reads throw
  on \<^verbatim>\<open>null\<close>, and \<^verbatim>\<open>compact.f.map\<close> throws unless \<^verbatim>\<open>compact.f\<close> is an array.
\<close>

definition decodeBody :: "(json \<Rightarrow> int option) \<Rightarrow> string \<Rightarrow> exn + DecodedReplay" where
  "decodeBody coerce encoded =
     (case atob encoded of
        Inl e \<Rightarrow> Inl e
      | Inr jsonText \<Rightarrow>
          (case JSON_parse jsonText of
             Inl e \<Rightarrow> Inl e
           | Inr compactObj \<Rightarrow>
               (case (getProp compactObj (jsString ''v''), getProp compactObj (jsString ''s''),
                      getProp compactObj (jsString ''m''), getProp compactObj (jsString ''f'')) of
                  (Inr v, Inr s, Inr m, Inr (Some (JArr fs))) \<Rightarrow>
                    (case decodeFrames coerce fs of
                       Inl e \<Rightarrow> Inl e
                     | Inr ds \<Rightarrow>
                         Inr \<lparr> dVersion = v, dSeed = s, dMode = m, dSettings = emptySettings,
                               dFrames = ds, dStartTime = 0, dPlayerName = ''Replay'' \<rparr>)
                | _ \<Rightarrow> Inl TypeError)))"

text \<open>\<^verbatim>\<open>try { ... } catch { return null; }\<close>: every exception becomes \<^verbatim>\<open>null\<close>.\<close>

definition decodeReplayFromUrl :: "(json \<Rightarrow> int option) \<Rightarrow> string \<Rightarrow> DecodedReplay option" where
  "decodeReplayFromUrl coerce encoded =
     (case decodeBody coerce encoded of Inl e \<Rightarrow> None | Inr replay \<Rightarrow> Some replay)"



text \<open>The replay of the unit tests (\<^verbatim>\<open>src/tests/unit/replay.test.ts\<close>).\<close>

definition sampleReplay :: ReplayData where
  "sampleReplay =
     \<lparr> version = 1, seed = 12345, mode = classic, settings = emptySettings,
       frames =
         [\<lparr> tick = 1, inputs = \<lparr> left = False, right = False, jump = False \<rparr> \<rparr>,
          \<lparr> tick = 2, inputs = \<lparr> left = True, right = False, jump = False \<rparr> \<rparr>,
          \<lparr> tick = 3, inputs = \<lparr> left = False, right = True, jump = False \<rparr> \<rparr>,
          \<lparr> tick = 4, inputs = \<lparr> left = False, right = False, jump = True \<rparr> \<rparr>,
          \<lparr> tick = 5, inputs = \<lparr> left = True, right = False, jump = True \<rparr> \<rparr>],
       startTime = 1700000000000, playerName = ''TestPlayer'' \<rparr>"

subsection \<open>The tokens and the JSON value of an encoded replay\<close>

text \<open>
  What the lexer and the parser are shown to make of \<open>stringifyCompact replay\<close>: the
  token list, and the object \<^verbatim>\<open>compact\<close> that \<^verbatim>\<open>encodeReplayToUrl\<close> started from.
\<close>

definition frameTokens :: "ReplayFrame \<Rightarrow> token list" where
  "frameTokens fr =
     [TLBrace, TStr (jsString ''t''), TColon, TNum (real_of_int (tick fr)), TComma,
      TStr (jsString ''i''), TColon, TNum (real_of_int (inputBits (inputs fr))), TRBrace]"

fun framesTokens :: "ReplayFrame list \<Rightarrow> token list" where
  "framesTokens [] = []"
| "framesTokens [fr] = frameTokens fr"
| "framesTokens (fr # frs) = frameTokens fr @ TComma # framesTokens frs"

definition compactTokens :: "ReplayData \<Rightarrow> token list" where
  "compactTokens replay =
     [TLBrace, TStr (jsString ''v''), TColon, TNum (real_of_int (version replay)), TComma,
      TStr (jsString ''s''), TColon, TNum (real_of_int (seed replay)), TComma,
      TStr (jsString ''m''), TColon, TStr (jsString (modeName (mode replay))), TComma,
      TStr (jsString ''f''), TColon, TLBrack]
     @ framesTokens (frames replay) @ [TRBrack, TRBrace]"

definition frameJson :: "ReplayFrame \<Rightarrow> json" where
  "frameJson fr =
     JObj [(jsString ''t'', JNum (real_of_int (tick fr))),
           (jsString ''i'', JNum (real_of_int (inputBits (inputs fr))))]"

definition compactJson :: "ReplayData \<Rightarrow> json" where
  "compactJson replay =
     JObj [(jsString ''v'', JNum (real_of_int (version replay))),
           (jsString ''s'', JNum (real_of_int (seed replay))),
           (jsString ''m'', JStr (jsString (modeName (mode replay)))),
           (jsString ''f'', JArr (map frameJson (frames replay)))]"

text \<open>
  A character that ends a number literal: not a digit, and not the start of a fraction or
  of an exponent.
\<close>

definition endsNumber :: "char \<Rightarrow> bool" where
  "endsNumber c \<longleftrightarrow> \<not> isDigit c \<and> c \<noteq> CHR ''.'' \<and> c \<noteq> CHR ''e'' \<and> c \<noteq> CHR ''E''"

chapter \<open>Properties\<close>

section \<open>The seeded generator\<close>

lemma nextFloat_range:
  assumes "lo \<le> hi"
  shows "lo \<le> fst (nextFloat lo hi s) \<and> fst (nextFloat lo hi s) \<le> hi"
proof -
  obtain v s' where vs: "rng_next s = (v, s')" by (cases "rng_next s")
  with rng_next_range [of s] have v: "0 \<le> v" "v \<le> 1" by simp_all
  have "0 \<le> v * (hi - lo)" using v assms by simp
  moreover have "v * (hi - lo) \<le> hi - lo"
    using v assms by (simp add: mult_left_le_one_le)
  ultimately show ?thesis using vs by (simp add: nextFloat_def)
qed

lemma rng_step_int32: "- 2147483648 \<le> rng_step s \<and> rng_step s < 2147483648"
  by (simp add: rng_step_def toInt32_def)

lemma rng_step_exact:
  assumes "- 2147483648 \<le> (s::int)" and "s < 2147483648"
  shows "\<bar>s * 1664525 + 1013904223\<bar> < (2::int) ^ 53"
  using assms by simp

text \<open>
  Claim C5: \<^verbatim>\<open>next()\<close> is strictly below 1, \<^verbatim>\<open>nextInt(min, max)\<close> is strictly
  below \<^verbatim>\<open>max\<close>, \<^verbatim>\<open>nextFloat(min, max)\<close> is in \<open>[min, max]\<close>. The generator divides
  the unsigned state by \<^verbatim>\<open>0xFFFFFFFF\<close>, not by \<open>2 ^ 32\<close>: from the seed 653637408 the
  next state is \<^verbatim>\<open>0xFFFFFFFF\<close>, \<^verbatim>\<open>next()\<close> returns exactly 1 and
  \<^verbatim>\<open>nextInt(0, 10)\<close> returns 10, against the doc comment of \<^verbatim>\<open>nextInt\<close>
  (\<^verbatim>\<open>max (exclusive)\<close>). The closed bounds that do hold are \<open>rng_next_range\<close>,
  \<open>nextInt_range\<close> and \<open>nextFloat_range\<close>.
\<close>

theorem rng_upper_bound_reached:
  "fst (rng_next 653637408) = 1 \<and> fst (nextInt 0 10 653637408) = 10 \<and>
   arrayGet (segmentTypes classic) (fst (nextInt 0 (int (length (segmentTypes classic))) 653637408))
     = None"
  by (simp add: nextInt_def rng_next_def rng_step_def toInt32_def toUint32_def arrayGet_def
        segmentTypes_def)

section \<open>Scoring\<close>




section \<open>The physics tick\<close>

lemma updateTimers_fields [simp]:
  "xPos (updateTimers dt p) = xPos p"
  "lateralSpeed (updateTimers dt p) = lateralSpeed p"
  "forwardSpeed (updateTimers dt p) = forwardSpeed p"
  "distanceTraveled (updateTimers dt p) = distanceTraveled p"
  "finished (updateTimers dt p) = finished p"
  by (simp_all add: updateTimers_def tickStunTimer_def tickShieldTimer_def
        tickSpeedBoostTimer_def tickJumpBoostTimer_def Let_def)

lemma updateTimers_stunTimer:
  "stunTimer (updateTimers dt p) =
     (if stunTimer p > 0 then (if stunTimer p - dt < 0 then 0 else stunTimer p - dt)
      else stunTimer p)"
  by (simp add: updateTimers_def tickStunTimer_def tickShieldTimer_def
        tickSpeedBoostTimer_def tickJumpBoostTimer_def Let_def)

lemma xPos_moving_tick:
  "xPos (updateLane seg (clampToSlide seg q)) =
     max (centerX - halfWidth seg + 10) (min (centerX + halfWidth seg - 10) (xPos q))"
  by (simp add: updateLane_def clampToSlide_def)

lemma clamp_inLaneBounds:
  assumes "1 \<le> lanes seg"
  shows "inLaneBounds seg
           (max (centerX - halfWidth seg + 10) (min (centerX + halfWidth seg - 10) x))"
proof -
  have "25 \<le> halfWidth seg" using assms by (simp add: halfWidth_def LANE_WIDTH_def)
  then show ?thesis by (simp add: inLaneBounds_def)
qed

lemmas tick_defs =
  updatePlayerPhysics_def Let_def updateTimers_stunTimer xPos_moving_tick
  integratePosition_def jumpCountdown_def jumpStart_def lateralStep_def forwardStep_def
  targetLateral_def centerX_def halfWidth_def inLaneBounds_def

text \<open>
  Claim C4, as amended: when the stun timer is positive and larger than \<open>dt\<close> before the
  tick, so that it is still positive after being decremented, the tick changes neither
  \<open>x\<close> nor the lateral speed nor the distance travelled, whatever the input; the stun
  timer of a player that is not finished goes down by \<open>dt\<close>.
\<close>

theorem stun_freezes_movement:
  assumes "stunTimer p > 0" and "stunTimer p > dt"
  shows "xPos (updatePlayerPhysics p inp seg dt) = xPos p \<and>
         lateralSpeed (updatePlayerPhysics p inp seg dt) = lateralSpeed p \<and>
         distanceTraveled (updatePlayerPhysics p inp seg dt) = distanceTraveled p \<and>
         (\<not> finished p \<longrightarrow> stunTimer (updatePlayerPhysics p inp seg dt) = stunTimer p - dt)"
  using assms by (simp add: updatePlayerPhysics_def Let_def updateTimers_stunTimer)

theorem stun_freezes_movement_witness:
  "stunTimer ((createPlayerState ''p1'' ''Test'' 2 False 0 None)\<lparr>stunTimer := 1\<rparr>) > 0 \<and>
   stunTimer ((createPlayerState ''p1'' ''Test'' 2 False 0 None)\<lparr>stunTimer := 1\<rparr>) > FIXED_DT \<and>
   \<not> finished ((createPlayerState ''p1'' ''Test'' 2 False 0 None)\<lparr>stunTimer := 1\<rparr>) \<and>
   xPos (updatePlayerPhysics ((createPlayerState ''p1'' ''Test'' 2 False 0 None)\<lparr>stunTimer := 1\<rparr>)
          \<lparr>left = True, right = False, jump = False\<rparr> (getClassicTrack ! 0) FIXED_DT) = 125 \<and>
   stunTimer (updatePlayerPhysics ((createPlayerState ''p1'' ''Test'' 2 False 0 None)\<lparr>stunTimer := 1\<rparr>)
          \<lparr>left = True, right = False, jump = False\<rparr> (getClassicTrack ! 0) FIXED_DT) = 59 / 60"
  using stun_freezes_movement
          [of "(createPlayerState ''p1'' ''Test'' 2 False 0 None)\<lparr>stunTimer := 1\<rparr>" FIXED_DT
              "\<lparr>left = True, right = False, jump = False\<rparr>" "getClassicTrack ! 0"]
  by (simp add: createPlayerState_def PHYSICS)

text \<open>
  A player whose stun timer is positive but not larger than \<open>dt\<close> moves in that very
  tick: the timer is decremented to 0 before the test that freezes a stunned player.
\<close>

theorem stun_short_counterexample:
  "stunTimer ((createPlayerState ''p1'' ''Test'' 2 False 0 None)\<lparr>stunTimer := 1 / 100\<rparr>) > 0 \<and>
   \<not> finished ((createPlayerState ''p1'' ''Test'' 2 False 0 None)\<lparr>stunTimer := 1 / 100\<rparr>) \<and>
   xPos ((createPlayerState ''p1'' ''Test'' 2 False 0 None)\<lparr>stunTimer := 1 / 100\<rparr>) = 125 \<and>
   xPos (updatePlayerPhysics ((createPlayerState ''p1'' ''Test'' 2 False 0 None)\<lparr>stunTimer := 1 / 100\<rparr>)
           \<lparr>left = True, right = False, jump = False\<rparr> (getClassicTrack ! 0) FIXED_DT)
     = 125 - 1 / 3"
  by (simp add: tick_defs createPlayerState_def getClassicTrack_def createSegment_def PHYSICS)

text \<open>
  Claim C3, as amended: for a segment with at least one lane, \<open>x\<close> is within the bounds
  of the segment passed to the tick after the tick, provided it was within them before the
  tick or the player moves in the tick (is not finished and not stunned after the timers
  were decremented). A finished or stunned player keeps its \<open>x\<close>.
\<close>

theorem lane_bounds_step:
  assumes "1 \<le> lanes seg"
      and "inLaneBounds seg (xPos p) \<or>
           (\<not> finished p \<and> (stunTimer p \<le> 0 \<or> stunTimer p \<le> dt))"
  shows "inLaneBounds seg (xPos (updatePlayerPhysics p inp seg dt))"
proof (cases "finished p \<or> stunTimer (updateTimers dt p) > 0")
  case True
  then have "xPos (updatePlayerPhysics p inp seg dt) = xPos p"
    by (auto simp: updatePlayerPhysics_def Let_def)
  moreover from True assms(2) have "inLaneBounds seg (xPos p)"
    by (auto simp: updateTimers_stunTimer split: if_splits)
  ultimately show ?thesis by simp
next
  case False
  then show ?thesis
    using clamp_inLaneBounds [OF assms(1)]
    by (simp add: updatePlayerPhysics_def Let_def xPos_moving_tick)
qed

theorem lane_bounds_step_witness:
  "1 \<le> lanes (getClassicTrack ! 4) \<and>
   \<not> finished ((createPlayerState ''b'' ''Bot'' 0 True 1 (Some casual))\<lparr>lateralSpeed := - 280\<rparr>) \<and>
   stunTimer ((createPlayerState ''b'' ''Bot'' 0 True 1 (Some casual))\<lparr>lateralSpeed := - 280\<rparr>) \<le> 0 \<and>
   inLaneBounds (getClassicTrack ! 4)
     (xPos (updatePlayerPhysics
              ((createPlayerState ''b'' ''Bot'' 0 True 1 (Some casual))\<lparr>lateralSpeed := - 280\<rparr>)
              \<lparr>left = True, right = False, jump = False\<rparr> (getClassicTrack ! 4) FIXED_DT))"
  using lane_bounds_step
          [of "getClassicTrack ! 4"
              "(createPlayerState ''b'' ''Bot'' 0 True 1 (Some casual))\<lparr>lateralSpeed := - 280\<rparr>"
              FIXED_DT "\<lparr>left = True, right = False, jump = False\<rparr>"]
  by (simp add: createPlayerState_def getClassicTrack_def createSegment_def)

text \<open>
  A player in lane 0 (\<open>x = 25\<close>, legal on the five-lane segments) that is stunned by a
  collision and then ticked on the narrow, three-lane segment of the classic track keeps
  \<open>x = 25\<close>, below the lower bound 60 of that segment.
\<close>

theorem lane_bounds_stunned_counterexample:
  "xPos (updatePlayerPhysics
           (fst (resolveCollision (createPlayerState ''a'' ''A'' 0 False 0 None)
                                  (createPlayerState ''b'' ''B'' 1 True 1 (Some casual))))
           \<lparr>left = False, right = True, jump = False\<rparr> (getClassicTrack ! 4) FIXED_DT) = 25 \<and>
   centerX - halfWidth (getClassicTrack ! 4) + 10 = 60 \<and>
   \<not> inLaneBounds (getClassicTrack ! 4)
       (xPos (updatePlayerPhysics
                (fst (resolveCollision (createPlayerState ''a'' ''A'' 0 False 0 None)
                                       (createPlayerState ''b'' ''B'' 1 True 1 (Some casual))))
                \<lparr>left = False, right = True, jump = False\<rparr> (getClassicTrack ! 4) FIXED_DT))"
  by (simp add: tick_defs resolveCollision_def createPlayerState_def getClassicTrack_def
        createSegment_def PHYSICS)

section \<open>Collisions\<close>

text \<open>
  Claim C6, as amended: the collision test is symmetric, and resolving a collision gives
  the same two player states in either order of the arguments when the two players have
  different \<open>x\<close> or are both shielded.
\<close>

theorem collision_order:
  "checkPlayerCollision a b = checkPlayerCollision b a \<and>
   (xPos a \<noteq> xPos b \<or> (hasShield a \<and> hasShield b) \<longrightarrow>
      resolveCollision b a = (snd (resolveCollision a b), fst (resolveCollision a b)))"
proof
  have "(xPos a - xPos b) * (xPos a - xPos b) = (xPos b - xPos a) * (xPos b - xPos a)"
    and "(distanceTraveled a - distanceTraveled b) * (distanceTraveled a - distanceTraveled b)
       = (distanceTraveled b - distanceTraveled a) * (distanceTraveled b - distanceTraveled a)"
    by (simp_all add: algebra_simps)
  then show "checkPlayerCollision a b = checkPlayerCollision b a"
    by (auto simp: checkPlayerCollision_def Let_def)
next
  show "xPos a \<noteq> xPos b \<or> (hasShield a \<and> hasShield b) \<longrightarrow>
      resolveCollision b a = (snd (resolveCollision a b), fst (resolveCollision a b))"
    by (auto simp: resolveCollision_def Let_def)
qed

theorem collision_order_witness:
  "xPos ((createPlayerState ''a'' ''A'' 2 False 0 None)\<lparr>xPos := 100\<rparr>)
     \<noteq> xPos ((createPlayerState ''b'' ''B'' 2 False 1 None)\<lparr>xPos := 110\<rparr>) \<and>
   resolveCollision ((createPlayerState ''b'' ''B'' 2 False 1 None)\<lparr>xPos := 110\<rparr>)
                    ((createPlayerState ''a'' ''A'' 2 False 0 None)\<lparr>xPos := 100\<rparr>)
     = (snd (resolveCollision ((createPlayerState ''a'' ''A'' 2 False 0 None)\<lparr>xPos := 100\<rparr>)
                              ((createPlayerState ''b'' ''B'' 2 False 1 None)\<lparr>xPos := 110\<rparr>)),
        fst (resolveCollision ((createPlayerState ''a'' ''A'' 2 False 0 None)\<lparr>xPos := 100\<rparr>)
                              ((createPlayerState ''b'' ''B'' 2 False 1 None)\<lparr>xPos := 110\<rparr>)))"
  using collision_order
          [of "(createPlayerState ''a'' ''A'' 2 False 0 None)\<lparr>xPos := 100\<rparr>"
              "(createPlayerState ''b'' ''B'' 2 False 1 None)\<lparr>xPos := 110\<rparr>"]
  by (simp add: createPlayerState_def)

text \<open>
  Two unshielded players with the same \<open>x\<close> (both created in lane 2): the first argument
  is always the one pushed to the left, so the outcome depends on the order.
\<close>

theorem collision_tie_counterexample:
  "xPos (createPlayerState ''a'' ''A'' 2 False 0 None)
     = xPos (createPlayerState ''b'' ''B'' 2 False 1 None) \<and>
   lateralSpeed (fst (resolveCollision (createPlayerState ''a'' ''A'' 2 False 0 None)
                        (createPlayerState ''b'' ''B'' 2 False 1 None))) = - 150 \<and>
   lateralSpeed (snd (resolveCollision (createPlayerState ''b'' ''B'' 2 False 1 None)
                        (createPlayerState ''a'' ''A'' 2 False 0 None))) = 150 \<and>
   resolveCollision (createPlayerState ''b'' ''B'' 2 False 1 None)
                    (createPlayerState ''a'' ''A'' 2 False 0 None)
     \<noteq> (snd (resolveCollision (createPlayerState ''a'' ''A'' 2 False 0 None)
                               (createPlayerState ''b'' ''B'' 2 False 1 None)),
         fst (resolveCollision (createPlayerState ''a'' ''A'' 2 False 0 None)
                               (createPlayerState ''b'' ''B'' 2 False 1 None)))"
  by (simp add: resolveCollision_def createPlayerState_def Let_def PHYSICS)

section \<open>The track generator\<close>










section \<open>The bot controller\<close>

lemma adaptProfile_other_fields:
  "steeringJitter (adaptProfile tbl k botPlayer ps j) = steeringJitter (tbl j)"
  "mistakeChance (adaptProfile tbl k botPlayer ps j) = mistakeChance (tbl j)"
  "reactionDelay (adaptProfile tbl k botPlayer ps j) = reactionDelay (tbl j)"
  by (simp_all add: adaptProfile_def split: option.splits)

lemma chaseTransition_props:
  "profile (fst (chaseTransition prof c nearby s)) = profile c \<and>
   reactionBuffer (fst (chaseTransition prof c nearby s)) = reactionBuffer c \<and>
   state (fst (chaseTransition prof c nearby s)) \<in> {state c, chase, race}"
  by (simp add: chaseTransition_def Let_def case_prod_beta)

lemma powerupTransition_props:
  "profile (fst (powerupTransition c botPlayer s)) = profile c \<and>
   reactionBuffer (fst (powerupTransition c botPlayer s)) = reactionBuffer c \<and>
   state (fst (powerupTransition c botPlayer s)) \<in> {state c, usePowerup}"
  by (simp add: powerupTransition_def Let_def case_prod_beta)

lemma updateState_props:
  assumes "updateState tbl c botPlayer ps s = (c', tbl', s')"
  shows "profile c' = profile c \<and> reactionBuffer c' = reactionBuffer c \<and>
         (state c \<noteq> avoidObstacle \<longrightarrow> state c' \<noteq> avoidObstacle) \<and>
         steeringJitter (tbl' j) = steeringJitter (tbl j) \<and>
         mistakeChance (tbl' j) = mistakeChance (tbl j) \<and>
         reactionDelay (tbl' j) = reactionDelay (tbl j)"
proof (cases "stunTimer botPlayer > 0")
  case True
  with assms show ?thesis by (auto simp: updateState_def)
next
  case False
  let ?c1 = "if state c = recover \<and> stunTimer botPlayer \<le> 0
             then c\<lparr>state := race, stateTimer := 0\<rparr> else c"
  let ?tbl1 = "adaptProfile tbl (profile c) botPlayer ps"
  let ?r2 = "chaseTransition (?tbl1 (profile ?c1)) ?c1 (nearbyPlayers botPlayer ps) s"
  let ?r3 = "powerupTransition (fst ?r2) botPlayer (snd ?r2)"
  have c': "c' = (if stateTimer (fst ?r3) > 180 then (fst ?r3)\<lparr>state := race, stateTimer := 0\<rparr>
                  else fst ?r3)" and tbl': "tbl' = ?tbl1"
    using assms False by (auto simp: updateState_def Let_def case_prod_beta)
  have p1: "profile ?c1 = profile c" "reactionBuffer ?c1 = reactionBuffer c"
           "state c \<noteq> avoidObstacle \<longrightarrow> state ?c1 \<noteq> avoidObstacle"
    by simp_all
  have p2: "profile (fst ?r2) = profile ?c1" "reactionBuffer (fst ?r2) = reactionBuffer ?c1"
           "state (fst ?r2) \<in> {state ?c1, chase, race}"
    using chaseTransition_props [of "?tbl1 (profile ?c1)" ?c1 "nearbyPlayers botPlayer ps" s]
    by blast+
  have p3: "profile (fst ?r3) = profile (fst ?r2)"
           "reactionBuffer (fst ?r3) = reactionBuffer (fst ?r2)"
           "state (fst ?r3) \<in> {state (fst ?r2), usePowerup}"
    using powerupTransition_props [of "fst ?r2" botPlayer "snd ?r2"] by blast+
  have "profile c' = profile c" using c' p1(1) p2(1) p3(1) by simp
  moreover have "reactionBuffer c' = reactionBuffer c" using c' p1(2) p2(2) p3(2) by simp
  moreover have "state c \<noteq> avoidObstacle \<longrightarrow> state c' \<noteq> avoidObstacle"
    using c' p1(3) p2(3) p3(3) by auto
  ultimately show ?thesis using tbl' by (simp add: adaptProfile_other_fields)
qed

lemma generateInput_props:
  assumes "state c \<noteq> avoidObstacle"
  shows "\<exists>raw c' s'. generateInput prof c botPlayer ps seg s = Some (raw, c', s') \<and>
           profile c' = profile c \<and> reactionBuffer c' = reactionBuffer c \<and> state c' = state c"
  using assms
  by (cases "state c")
     (simp_all add: generateInput_def raceInput_def Let_def case_prod_beta)

lemma steeringJitterStep_jump [simp]:
  "jump (fst (steeringJitterStep prof inp s)) = jump inp"
  by (simp add: steeringJitterStep_def Let_def case_prod_beta)

lemma randomMistakeStep_jump [simp]:
  "jump (fst (randomMistakeStep prof inp s)) = jump inp"
  by (simp add: randomMistakeStep_def Let_def case_prod_beta)

lemma humanLikeness_jump [simp]:
  "jump (fst (humanLikeness prof inp s)) = jump inp"
  by (simp add: humanLikeness_def Let_def case_prod_beta)

lemma humanLikeness_cong:
  assumes "steeringJitter prof = steeringJitter prof'" and "mistakeChance prof = mistakeChance prof'"
  shows "humanLikeness prof inp s = humanLikeness prof' inp s"
  using assms by (simp add: humanLikeness_def steeringJitterStep_def randomMistakeStep_def)

lemma humanLikeness_no_noise:
  assumes "steeringJitter prof \<le> 0" and "mistakeChance prof \<le> 0"
  shows "fst (humanLikeness prof inp s) = inp"
proof -
  have a: "\<not> fst (rng_next t) < steeringJitter prof" for t
    using rng_next_range [of t] assms(1) by linarith
  have b: "\<not> fst (rng_next t) < mistakeChance prof / 60" for t
    using rng_next_range [of t] assms(2) by simp
  show ?thesis
    using a b
    by (simp add: humanLikeness_def steeringJitterStep_def randomMistakeStep_def Let_def
          case_prod_beta)
qed

text \<open>
  One call of \<^verbatim>\<open>update\<close> on a controller that is not in the state
  \<^verbatim>\<open>avoidObstacle\<close>: it returns, the output is the first entry of the buffer (extended
  by the new raw input) after the jitter and mistake steps, and the buffer loses that entry.
\<close>

lemma update_step:
  assumes "state c \<noteq> avoidObstacle"
  shows "\<exists>out c' tbl' s' raw sn.
           update tbl c botPlayer ps seg s = Some (out, c', tbl', s') \<and>
           profile c' = profile c \<and> state c' \<noteq> avoidObstacle \<and>
           reactionBuffer c' = tl (reactionBuffer c @ [raw]) \<and>
           out = fst (humanLikeness (tbl (profile c)) (hd (reactionBuffer c @ [raw])) sn) \<and>
           (\<forall>j. steeringJitter (tbl' j) = steeringJitter (tbl j) \<and>
                mistakeChance (tbl' j) = mistakeChance (tbl j) \<and>
                reactionDelay (tbl' j) = reactionDelay (tbl j))"
proof -
  let ?c0 = "c\<lparr>frameCount := Suc (frameCount c), stateTimer := Suc (stateTimer c)\<rparr>"
  obtain c1 tbl1 s1 where us: "updateState tbl ?c0 botPlayer ps s = (c1, tbl1, s1)"
    by (cases "updateState tbl ?c0 botPlayer ps s") auto
  have st0: "state ?c0 \<noteq> avoidObstacle" using assms by simp
  have p1: "profile c1 = profile c" "reactionBuffer c1 = reactionBuffer c"
           "state c1 \<noteq> avoidObstacle"
    using updateState_props [OF us, of undefined] st0 by simp_all
  have t1: "\<forall>j. steeringJitter (tbl1 j) = steeringJitter (tbl j) \<and>
                mistakeChance (tbl1 j) = mistakeChance (tbl j) \<and>
                reactionDelay (tbl1 j) = reactionDelay (tbl j)"
    using updateState_props [OF us] by blast
  obtain raw c2 s2 where
    gi: "generateInput (tbl1 (profile c1)) c1 botPlayer ps seg s1 = Some (raw, c2, s2)"
    and p2: "profile c2 = profile c1" "reactionBuffer c2 = reactionBuffer c1"
            "state c2 = state c1"
    using generateInput_props [OF p1(3)] by blast
  obtain d rest where dr: "reactionBuffer c2 @ [raw] = d # rest"
    by (cases "reactionBuffer c2 @ [raw]") auto
  let ?c3 = "c2\<lparr>reactionBuffer := rest\<rparr>"
  have up: "update tbl c botPlayer ps seg s
              = Some (fst (humanLikeness (tbl1 (profile c2)) d s2), ?c3, tbl1,
                      snd (humanLikeness (tbl1 (profile c2)) d s2))"
    by (simp add: update_def Let_def us gi dr case_prod_beta)
  have hl: "humanLikeness (tbl1 (profile c2)) d s2 = humanLikeness (tbl (profile c)) d s2"
    using t1 p1(1) p2(1) by (intro humanLikeness_cong) simp_all
  have hd: "d = hd (reactionBuffer c @ [raw])" and tl: "rest = tl (reactionBuffer c @ [raw])"
    using dr p1(2) p2(2) by (metis list.sel(1), metis list.sel(3))
  show ?thesis
    using up hl hd tl p1 p2 t1 by (intro exI [where x = raw] exI [where x = s2] exI) auto
qed

lemma runUpdates_delay:
  assumes "state c \<noteq> avoidObstacle"
      and "reactionBuffer c = replicate j neutralInput @ raws"
      and "length scs \<le> j"
      and "profile c = k"
  shows "\<exists>outs c' tbl' rng'.
           runUpdates tbl c rng scs = Some (outs, c', tbl', rng') \<and>
           length outs = length scs \<and>
           (\<forall>out \<in> set outs. \<exists>s. out = fst (humanLikeness (tbl k) neutralInput s))"
  using assms
proof (induction scs arbitrary: c tbl rng j raws)
  case Nil
  then show ?case by simp
next
  case (Cons sc scs)
  obtain botPlayer ps seg where sc: "sc = (botPlayer, ps, seg)" by (cases sc) auto
  from Cons.prems(3) obtain j' where j: "j = Suc j'" and len: "length scs \<le> j'"
    by (cases j) auto
  from update_step [OF Cons.prems(1), of tbl botPlayer ps seg rng]
  obtain out c1 tbl1 s1 raw sn where
    up: "update tbl c botPlayer ps seg rng = Some (out, c1, tbl1, s1)"
    and c1: "profile c1 = profile c" "state c1 \<noteq> avoidObstacle"
            "reactionBuffer c1 = tl (reactionBuffer c @ [raw])"
    and out: "out = fst (humanLikeness (tbl (profile c)) (hd (reactionBuffer c @ [raw])) sn)"
    and t1: "\<forall>i. steeringJitter (tbl1 i) = steeringJitter (tbl i) \<and>
                 mistakeChance (tbl1 i) = mistakeChance (tbl i) \<and>
                 reactionDelay (tbl1 i) = reactionDelay (tbl i)"
    by blast
  have buf: "reactionBuffer c1 = replicate j' neutralInput @ (raws @ [raw])"
    using c1(3) Cons.prems(2) j by simp
  have out': "out = fst (humanLikeness (tbl k) neutralInput sn)"
    using out Cons.prems(2,4) j by simp
  from Cons.IH [OF c1(2) buf len, of tbl1 s1] c1(1) Cons.prems(4)
  obtain outs c' tbl' rng' where
    run: "runUpdates tbl1 c1 s1 scs = Some (outs, c', tbl', rng')"
    and l: "length outs = length scs"
    and o: "\<forall>out \<in> set outs. \<exists>s. out = fst (humanLikeness (tbl1 k) neutralInput s)"
    by auto
  have "humanLikeness (tbl1 k) neutralInput s = humanLikeness (tbl k) neutralInput s" for s
    using t1 by (intro humanLikeness_cong) simp_all
  with o have o': "\<forall>out \<in> set outs. \<exists>s. out = fst (humanLikeness (tbl k) neutralInput s)"
    by simp
  have "runUpdates tbl c rng (sc # scs) = Some (out # outs, c', tbl', rng')"
    by (simp add: sc up run)
  moreover have "length (out # outs) = length (sc # scs)" using l by simp
  moreover have "\<forall>x \<in> set (out # outs). \<exists>s. x = fst (humanLikeness (tbl k) neutralInput s)"
    using out' o' by auto
  ultimately show ?case by blast
qed

text \<open>
  Claim C9, as amended: from a freshly constructed controller, the first
  \<open>reactionDelay\<close> calls of \<^verbatim>\<open>update\<close> return, for every scenario and generator
  state, the neutral input taken from the reaction buffer after the steering jitter and
  the random mistake were applied to it: \<open>jump\<close> is false, and \<open>left\<close> and \<open>right\<close> are
  those that the jitter and mistake steps make of the neutral input. The outputs are
  exactly neutral for a profile without jitter and mistakes.
\<close>

theorem reaction_delay_outputs:
  assumes "length scs \<le> reactionDelay (tbl k)"
  shows "\<exists>outs c' tbl' rng'.
           runUpdates tbl (newBotController tbl k) rng scs = Some (outs, c', tbl', rng') \<and>
           length outs = length scs \<and>
           (\<forall>out \<in> set outs.
              \<not> jump out \<and> (\<exists>s. out = fst (humanLikeness (tbl k) neutralInput s))) \<and>
           (steeringJitter (tbl k) \<le> 0 \<and> mistakeChance (tbl k) \<le> 0 \<longrightarrow>
              (\<forall>out \<in> set outs. out = neutralInput))"
proof -
  have "state (newBotController tbl k) \<noteq> avoidObstacle"
    and "reactionBuffer (newBotController tbl k)
           = replicate (reactionDelay (tbl k)) neutralInput @ []"
    and "profile (newBotController tbl k) = k"
    by (simp_all add: newBotController_def)
  from runUpdates_delay [OF this(1,2) assms this(3), of tbl rng]
  obtain outs c' tbl' rng' where
    run: "runUpdates tbl (newBotController tbl k) rng scs = Some (outs, c', tbl', rng')"
    and l: "length outs = length scs"
    and o: "\<forall>out \<in> set outs. \<exists>s. out = fst (humanLikeness (tbl k) neutralInput s)"
    by blast
  have j: "\<forall>out \<in> set outs. \<not> jump out"
  proof
    fix out assume "out \<in> set outs"
    with o obtain s where "out = fst (humanLikeness (tbl k) neutralInput s)" by blast
    then show "\<not> jump out" by (simp add: neutralInput_def)
  qed
  have n: "steeringJitter (tbl k) \<le> 0 \<and> mistakeChance (tbl k) \<le> 0 \<longrightarrow>
             (\<forall>out \<in> set outs. out = neutralInput)"
  proof (intro impI ballI)
    fix out assume a: "steeringJitter (tbl k) \<le> 0 \<and> mistakeChance (tbl k) \<le> 0"
      and "out \<in> set outs"
    with o obtain s where "out = fst (humanLikeness (tbl k) neutralInput s)" by blast
    with a show "out = neutralInput" by (simp add: humanLikeness_no_noise)
  qed
  from run l o j n show ?thesis by blast
qed

theorem reaction_delay_outputs_witness:
  "length [(testBot speedster, testPlayers speedster, defaultSegment),
           (testBot speedster, testPlayers speedster, defaultSegment)]
     \<le> reactionDelay (BOT_PROFILES speedster) \<and>
   map_option fst
     (runUpdates BOT_PROFILES (newBotController BOT_PROFILES speedster) 42
        [(testBot speedster, testPlayers speedster, defaultSegment),
         (testBot speedster, testPlayers speedster, defaultSegment)])
     = Some [neutralInput, neutralInput] \<and>
   (\<exists>outs c' tbl' rng'.
      runUpdates BOT_PROFILES (newBotController BOT_PROFILES speedster) 42
        [(testBot speedster, testPlayers speedster, defaultSegment),
         (testBot speedster, testPlayers speedster, defaultSegment)]
        = Some (outs, c', tbl', rng') \<and>
      (\<forall>out \<in> set outs. \<not> jump out))"
proof -
  have a: "length [(testBot speedster, testPlayers speedster, defaultSegment),
                   (testBot speedster, testPlayers speedster, defaultSegment)]
             \<le> reactionDelay (BOT_PROFILES speedster)"
    by simp
  have b: "map_option fst
     (runUpdates BOT_PROFILES (newBotController BOT_PROFILES speedster) 42
        [(testBot speedster, testPlayers speedster, defaultSegment),
         (testBot speedster, testPlayers speedster, defaultSegment)])
     = Some [neutralInput, neutralInput]"
    by code_simp
  from reaction_delay_outputs [where tbl = BOT_PROFILES and k = speedster and rng = 42, OF a]
    a b show ?thesis by blast
qed

text \<open>
  The first call of \<^verbatim>\<open>update\<close> in the unit test \<^verbatim>\<open>generates valid input\<close> (profile
  \<^verbatim>\<open>casual\<close>, reaction delay 8, seed 42): the jitter draw is below
  \<^verbatim>\<open>steeringJitter\<close>, and the neutral input from the buffer comes back with
  \<^verbatim>\<open>left\<close> set.
\<close>

theorem reaction_delay_jitter_counterexample:
  "0 < reactionDelay (BOT_PROFILES casual) \<and>
   map_option fst
     (update BOT_PROFILES (newBotController BOT_PROFILES casual)
        (testBot casual) (testPlayers casual) defaultSegment 42)
     = Some \<lparr>left = True, right = False, jump = False\<rparr>"
  by code_simp

subsection \<open>The shared profile table\<close>

lemma stripTuned_fields:
  assumes "stripTuned p = stripTuned q"
  shows "profType p = profType q" "profName p = profName q"
        "boostSeekRange p = boostSeekRange q" "optimalLineWeight p = optimalLineWeight q"
        "collisionAggression p = collisionAggression q"
        "collisionAvoidance p = collisionAvoidance q"
        "jumpFrequency p = jumpFrequency q" "jumpTimingPrecision p = jumpTimingPrecision q"
        "obstacleAvoidRange p = obstacleAvoidRange q" "steeringJitter p = steeringJitter q"
        "reactionDelay p = reactionDelay q" "mistakeChance p = mistakeChance q"
        "adaptiveness p = adaptiveness q"
proof -
  have "f (stripTuned p) = f (stripTuned q)" for f :: "BotProfile \<Rightarrow> 'a"
    using assms by simp
  from this [of profType] this [of profName] this [of boostSeekRange]
       this [of optimalLineWeight] this [of collisionAggression] this [of collisionAvoidance]
       this [of jumpFrequency] this [of jumpTimingPrecision] this [of obstacleAvoidRange]
       this [of steeringJitter] this [of reactionDelay] this [of mistakeChance]
       this [of adaptiveness]
  show "profType p = profType q" "profName p = profName q"
        "boostSeekRange p = boostSeekRange q" "optimalLineWeight p = optimalLineWeight q"
        "collisionAggression p = collisionAggression q"
        "collisionAvoidance p = collisionAvoidance q"
        "jumpFrequency p = jumpFrequency q" "jumpTimingPrecision p = jumpTimingPrecision q"
        "obstacleAvoidRange p = obstacleAvoidRange q" "steeringJitter p = steeringJitter q"
        "reactionDelay p = reactionDelay q" "mistakeChance p = mistakeChance q"
        "adaptiveness p = adaptiveness q"
    by (simp_all add: stripTuned_def)
qed

lemma tablesAgree_refl: "tablesAgree tbl tbl"
  by (simp add: tablesAgree_def)

lemma tablesAgree_sym: "tablesAgree tbl tbl' \<Longrightarrow> tablesAgree tbl' tbl"
  by (simp add: tablesAgree_def)

lemma tablesAgree_trans: "tablesAgree t1 t2 \<Longrightarrow> tablesAgree t2 t3 \<Longrightarrow> tablesAgree t1 t3"
  by (simp add: tablesAgree_def)

lemma adaptProfile_agree_self: "tablesAgree tbl (adaptProfile tbl k botPlayer ps)"
  by (simp add: tablesAgree_def adaptProfile_def stripTuned_def split: option.splits)

lemma adaptProfile_agree:
  assumes "tablesAgree tbl tbl'"
  shows "tablesAgree (adaptProfile tbl k botPlayer ps) (adaptProfile tbl' k botPlayer ps)"
  by (meson assms adaptProfile_agree_self tablesAgree_sym tablesAgree_trans)

lemma laneScore_agree:
  assumes "stripTuned p = stripTuned q"
  shows "laneScore p seg i s = laneScore q seg i s"
  using stripTuned_fields [OF assms] by (simp add: laneScore_def Let_def case_prod_beta cong: if_cong)

lemma laneScores_agree:
  assumes "stripTuned p = stripTuned q"
  shows "laneScores p seg i n s = laneScores q seg i n s"
  by (induction n arbitrary: i s) (simp_all add: laneScore_agree [OF assms])

lemma raceInput_agree:
  assumes "stripTuned p = stripTuned q"
  shows "raceInput p c botPlayer seg s = raceInput q c botPlayer seg s"
  using stripTuned_fields [OF assms]
  by (simp add: raceInput_def scoreLanes_def laneScores_agree [OF assms] Let_def
        case_prod_beta cong: if_cong)

lemma chaseInput_agree:
  assumes "stripTuned p = stripTuned q"
  shows "chaseInput p botPlayer ps s = chaseInput q botPlayer ps s"
  using stripTuned_fields [OF assms] by (simp add: chaseInput_def Let_def case_prod_beta cong: if_cong list.case_cong)

lemma generateInput_agree:
  assumes "stripTuned p = stripTuned q" and "state c \<noteq> avoidObstacle"
  shows "generateInput p c botPlayer ps seg s = generateInput q c botPlayer ps seg s"
  using assms(2)
  by (cases "state c")
     (simp_all add: generateInput_def raceInput_agree [OF assms(1)]
        chaseInput_agree [OF assms(1)])

lemma chaseTransition_agree:
  assumes "stripTuned p = stripTuned q"
  shows "chaseTransition p c nearby s = chaseTransition q c nearby s"
  using stripTuned_fields [OF assms]
  by (simp add: chaseTransition_def Let_def case_prod_beta cong: if_cong)

lemma humanLikeness_agree:
  assumes "stripTuned p = stripTuned q"
  shows "humanLikeness p inp s = humanLikeness q inp s"
  using stripTuned_fields [OF assms] by (intro humanLikeness_cong) simp_all

lemma updateState_agree:
  assumes "tablesAgree tbl tbl'"
  shows "fst (updateState tbl c botPlayer ps s) = fst (updateState tbl' c botPlayer ps s) \<and>
         snd (snd (updateState tbl c botPlayer ps s))
           = snd (snd (updateState tbl' c botPlayer ps s)) \<and>
         tablesAgree (fst (snd (updateState tbl c botPlayer ps s)))
                     (fst (snd (updateState tbl' c botPlayer ps s))) \<and>
         tablesAgree tbl (fst (snd (updateState tbl c botPlayer ps s)))"
proof (cases "stunTimer botPlayer > 0")
  case True
  with assms show ?thesis by (simp add: updateState_def tablesAgree_refl)
next
  case False
  let ?t = "adaptProfile tbl (profile c) botPlayer ps"
  let ?t' = "adaptProfile tbl' (profile c) botPlayer ps"
  have ag: "tablesAgree ?t ?t'" by (rule adaptProfile_agree [OF assms])
  then have "stripTuned (?t j) = stripTuned (?t' j)" for j by (simp add: tablesAgree_def)
  then have ct: "chaseTransition (?t j) d nearby s = chaseTransition (?t' j) d nearby s"
    for j d nearby
    by (rule chaseTransition_agree)
  show ?thesis
    using False ag adaptProfile_agree_self [of tbl "profile c" botPlayer ps]
    by (simp add: updateState_def Let_def case_prod_beta ct)
qed

text \<open>
  A call of \<^verbatim>\<open>update\<close> outside the state \<^verbatim>\<open>avoidObstacle\<close> returns the same
  input, controller and generator state from two tables that agree, and leaves tables
  that agree with each other and with the ones before the call.
\<close>

lemma update_agree:
  assumes "tablesAgree tbl tbl'" and "state c \<noteq> avoidObstacle"
      and "update tbl c botPlayer ps seg s = Some (out, c1, tbl1, s1)"
  shows "\<exists>tbl1'. update tbl' c botPlayer ps seg s = Some (out, c1, tbl1', s1) \<and>
                 tablesAgree tbl1 tbl1' \<and> tablesAgree tbl tbl1 \<and> state c1 \<noteq> avoidObstacle"
proof -
  let ?c0 = "c\<lparr>frameCount := Suc (frameCount c), stateTimer := Suc (stateTimer c)\<rparr>"
  let ?u = "updateState tbl ?c0 botPlayer ps s"
  let ?u' = "updateState tbl' ?c0 botPlayer ps s"
  from updateState_agree [OF assms(1), of ?c0 botPlayer ps s]
  have e1: "fst ?u = fst ?u'" and e2: "snd (snd ?u) = snd (snd ?u')"
    and ag: "tablesAgree (fst (snd ?u)) (fst (snd ?u'))"
    and ag0: "tablesAgree tbl (fst (snd ?u))"
    by blast+
  have st: "state (fst ?u) \<noteq> avoidObstacle"
    using updateState_props [of tbl ?c0 botPlayer ps s "fst ?u" "fst (snd ?u)" "snd (snd ?u)"]
          assms(2)
    by simp
  from ag have sk: "stripTuned (fst (snd ?u) j) = stripTuned (fst (snd ?u') j)" for j
    by (simp add: tablesAgree_def)
  have gi: "generateInput (fst (snd ?u) j) (fst ?u) botPlayer ps seg t
              = generateInput (fst (snd ?u') j) (fst ?u) botPlayer ps seg t" for j t
    by (rule generateInput_agree [OF sk st])
  have hl: "humanLikeness (fst (snd ?u) j) inp t = humanLikeness (fst (snd ?u') j) inp t"
    for j inp t
    by (rule humanLikeness_agree [OF sk])
  have t1: "tbl1 = fst (snd ?u)"
    using assms(3)
    by (auto simp: update_def Let_def case_prod_beta split: option.splits list.splits)
  have c1: "state c1 \<noteq> avoidObstacle"
    using update_step [OF assms(2), of tbl botPlayer ps seg s] assms(3) by auto
  have "update tbl' c botPlayer ps seg s = Some (out, c1, fst (snd ?u'), s1)"
    using assms(3)
    by (auto simp: update_def Let_def case_prod_beta e1 [symmetric] e2 [symmetric]
                   gi [symmetric] hl [symmetric]
             split: option.splits list.splits)
  with ag ag0 t1 c1 show ?thesis by blast
qed

lemma runUpdates_agree:
  assumes "tablesAgree tbl tbl'" and "state c \<noteq> avoidObstacle"
      and "runUpdates tbl c s scs = Some (outs, c1, tbl1, s1)"
  shows "\<exists>tbl1'. runUpdates tbl' c s scs = Some (outs, c1, tbl1', s1) \<and>
                 tablesAgree tbl1 tbl1' \<and> tablesAgree tbl tbl1"
  using assms
proof (induction scs arbitrary: tbl tbl' c s outs)
  case Nil
  then show ?case by (auto simp: tablesAgree_refl)
next
  case (Cons sc scs)
  obtain botPlayer ps seg where sc: "sc = (botPlayer, ps, seg)" by (cases sc) auto
  from Cons.prems(3) obtain out c2 tbl2 s2 outs2 where
    up: "update tbl c botPlayer ps seg s = Some (out, c2, tbl2, s2)"
    and run: "runUpdates tbl2 c2 s2 scs = Some (outs2, c1, tbl1, s1)"
    and outs: "outs = out # outs2"
    by (auto simp: sc split: option.splits)
  from update_agree [OF Cons.prems(1,2) up] obtain tbl2' where
    up': "update tbl' c botPlayer ps seg s = Some (out, c2, tbl2', s2)"
    and ag2: "tablesAgree tbl2 tbl2'" and ag02: "tablesAgree tbl tbl2"
    and st2: "state c2 \<noteq> avoidObstacle"
    by blast
  from Cons.IH [OF ag2 st2 run] obtain tbl1' where
    run': "runUpdates tbl2' c2 s2 scs = Some (outs2, c1, tbl1', s1)"
    and ag1: "tablesAgree tbl1 tbl1'" and ag21: "tablesAgree tbl2 tbl1"
    by blast
  have "runUpdates tbl' c s (sc # scs) = Some (outs, c1, tbl1', s1)"
    by (simp add: sc up' run' outs)
  moreover have "tablesAgree tbl tbl1" by (rule tablesAgree_trans [OF ag02 ag21])
  ultimately show ?case using ag1 by blast
qed

text \<open>
  Determinism over the shared table: a controller run from a generator state over a list
  of scenarios, and then a second controller constructed with the same profile name from
  the table that the first run left behind and run from the same generator state over the
  same scenarios, return the same inputs. The tuning of the first run does reach the
  second controller, but it changes only \<^verbatim>\<open>targetSpeedFactor\<close> and
  \<^verbatim>\<open>riskTolerance\<close>, which no reachable state reads.
\<close>

lemma identical_input_sequences:
  assumes "runUpdates tbl (newBotController tbl k) rng scs = Some (outs, c1, tbl1, seed1)"
  shows "\<exists>tbl2. runUpdates tbl1 (newBotController tbl1 k) rng scs
                  = Some (outs, c1, tbl2, seed1)"
proof -
  have st: "state (newBotController tbl k) \<noteq> avoidObstacle"
    by (simp add: newBotController_def)
  from runUpdates_agree [OF tablesAgree_refl st assms]
  have ag: "tablesAgree tbl tbl1" by blast
  then have "stripTuned (tbl k) = stripTuned (tbl1 k)" by (simp add: tablesAgree_def)
  then have "reactionDelay (tbl k) = reactionDelay (tbl1 k)" by (rule stripTuned_fields)
  then have nc: "newBotController tbl1 k = newBotController tbl k"
    by (simp add: newBotController_def)
  from runUpdates_agree [OF ag st assms] show ?thesis unfolding nc by blast
qed

text \<open>
  Claim C2: two controllers constructed alike with the same profile name return the same
  inputs over the same scenarios (this half holds, see \<open>identical_input_sequences\<close>),
  and in particular the adaptive tuning of one controller never reaches another controller
  with the same profile name. The constructor keeps a reference to the shared profile
  object, so the tuning does reach it: after one call of \<^verbatim>\<open>update\<close> on a controller
  with the profile \<^verbatim>\<open>adaptive\<close>, with the human player more than 100 ahead of the
  bot, \<^verbatim>\<open>getProfile()\<close> of a second controller with that profile, whether it was
  constructed before the call (from \<open>BOT_PROFILES\<close>) or after it (from the table that
  the call left), returns \<^verbatim>\<open>targetSpeedFactor\<close> 0.9 and \<^verbatim>\<open>riskTolerance\<close> 0.6, not
  the 0.8 and 0.5 of the profile.
\<close>

theorem adaptive_tuning_leaks:
  "map_option
     (\<lambda>(inp, c, tbl, s).
        (targetSpeedFactor (getProfile tbl (newBotController BOT_PROFILES adaptive)),
         riskTolerance (getProfile tbl (newBotController BOT_PROFILES adaptive)),
         targetSpeedFactor (getProfile tbl (newBotController tbl adaptive)),
         riskTolerance (getProfile tbl (newBotController tbl adaptive))))
     (update BOT_PROFILES (newBotController BOT_PROFILES adaptive) (testBot adaptive)
        [(createPlayerState ''p1'' ''Player'' 2 False 0 None)\<lparr>distanceTraveled := 150\<rparr>,
         testBot adaptive]
        defaultSegment 42)
     = Some (9 / 10, 6 / 10, 9 / 10, 6 / 10) \<and>
   targetSpeedFactor (getProfile BOT_PROFILES (newBotController BOT_PROFILES adaptive)) = 8 / 10 \<and>
   riskTolerance (getProfile BOT_PROFILES (newBotController BOT_PROFILES adaptive)) = 5 / 10"
  by code_simp

section \<open>The replay codec\<close>

subsection \<open>\<^verbatim>\<open>atob\<close> undoes \<^verbatim>\<open>btoa\<close>\<close>

lemma b64chars_length: "length b64chars = 64"
  by (simp add: b64chars_def)

lemma b64chars_distinct: "distinct b64chars"
  by (simp add: b64chars_def)

lemma b64val_b64char:
  assumes "n < 64"
  shows "b64val (b64char n) = Some n"
proof -
  have "map_of (zip b64chars [0..<length b64chars]) (b64chars ! n) = Some ([0..<length b64chars] ! n)"
    using assms by (intro map_of_zip_nth) (simp_all add: b64chars_distinct b64chars_length)
  then show ?thesis using assms by (simp add: b64val_def b64char_def b64chars_length)
qed

lemma b64char_plain:
  assumes "n < 64"
  shows "b64char n \<noteq> CHR ''=''" and "\<not> isAsciiWhitespace (b64char n)"
proof -
  have "b64char n \<in> set b64chars"
    using assms by (simp add: b64char_def b64chars_length)
  moreover have "CHR ''='' \<notin> set b64chars" "\<forall>c \<in> set b64chars. \<not> isAsciiWhitespace c"
    by (simp_all add: b64chars_def isAsciiWhitespace_def)
  ultimately show "b64char n \<noteq> CHR ''=''" and "\<not> isAsciiWhitespace (b64char n)"
    by auto
qed

lemma sextets_bound:
  "\<forall>x \<in> set bs. x < 256 \<Longrightarrow> \<forall>y \<in> set (sextets bs). y < 64"
proof (induction bs rule: sextets.induct)
  case 1
  then show ?case by simp
next
  case (2 a)
  then show ?case by simp
next
  case (3 a b)
  have "(a mod 4) * 16 + b div 16 < 64" "(b mod 16) * 4 < 64" "a div 4 < 64"
    using 3 by (simp_all add: less_mult_imp_div_less) (arith+)?
  then show ?case by simp
next
  case (4 a b c rest)
  have "(a mod 4) * 16 + b div 16 < 64" "(b mod 16) * 4 + c div 64 < 64" "a div 4 < 64"
    using 4(2) by (simp_all add: less_mult_imp_div_less) (arith+)?
  with 4 show ?case by simp
qed

lemma unsextets_sextets:
  "\<forall>x \<in> set bs. x < 256 \<Longrightarrow> unsextets (sextets bs) = bs"
proof (induction bs rule: sextets.induct)
  case 1
  then show ?case by simp
next
  case (2 a)
  have "a div 4 * 4 + a mod 4 * 16 div 16 = a" by simp
  then show ?case by simp
next
  case (3 a b)
  have "b < 256" using 3 by simp
  then have "b div 16 < 16" by simp
  then have "a div 4 * 4 + (a mod 4 * 16 + b div 16) div 16 = a"
            "(a mod 4 * 16 + b div 16) mod 16 * 16 + b mod 16 * 4 div 4 = b"
    by simp_all
  then show ?case by simp
next
  case (4 a b c rest)
  have "b < 256" "c < 256" using 4(2) by simp_all
  then have "b div 16 < 16" "c div 64 < 4" by simp_all
  then have "a div 4 * 4 + (a mod 4 * 16 + b div 16) div 16 = a"
            "(a mod 4 * 16 + b div 16) mod 16 * 16 + (b mod 16 * 4 + c div 64) div 4 = b"
            "(b mod 16 * 4 + c div 64) mod 4 * 64 + c mod 64 = c"
    by simp_all
  with 4 show ?case by simp
qed

lemma sextets_length:
  "length (sextets bs) mod 4 \<noteq> 1 \<and>
   (length (sextets bs) + (3 - length bs mod 3) mod 3) mod 4 = 0"
proof (induction bs rule: sextets.induct)
  case (4 a b c rest)
  have "length (a # b # c # rest) = length rest + 3" by simp
  then have m: "length (a # b # c # rest) mod 3 = length rest mod 3"
    by (metis mod_add_self2)
  have l: "length (sextets (a # b # c # rest)) = 4 + length (sextets rest)"
    by simp
  have e1: "length (sextets (a # b # c # rest)) mod 4 = length (sextets rest) mod 4"
    unfolding l by (metis mod_add_self1)
  have e2: "(length (sextets (a # b # c # rest)) + k) mod 4
              = (length (sextets rest) + k) mod 4" for k
    unfolding l by (metis add.assoc mod_add_self1)
  show ?case using 4 by (simp only: e1 e2 m) simp
qed simp_all

lemma stripPadding_b64:
  assumes "\<forall>y \<in> set sx. y < 64" and "p \<le> 2"
  shows "stripPadding (map b64char sx @ replicate p (CHR ''='')) = map b64char sx"
proof -
  have nl: "xs \<noteq> [] \<Longrightarrow> xs = map b64char sx \<Longrightarrow> last xs \<noteq> CHR ''=''" for xs
    using assms(1) b64char_plain(1) by (metis last_in_set imageE list.set_map)
  consider "p = 0" | "p = 1" | "p = 2" using assms(2) by linarith
  then show ?thesis
  proof cases
    case 1
    then show ?thesis using nl [of "map b64char sx"] by (auto simp: stripPadding_def)
  next
    case 2
    then show ?thesis using nl [of "map b64char sx"] by (auto simp: stripPadding_def)
  next
    case 3
    then have r: "replicate p (CHR ''='') = [CHR ''='', CHR ''='']"
      by (simp add: numeral_2_eq_2)
    have "butlast (map b64char sx @ [CHR ''='', CHR ''='']) = map b64char sx @ [CHR ''='']"
      by (simp add: butlast_append)
    then show ?thesis using nl [of "map b64char sx"] by (simp add: stripPadding_def r)
  qed
qed

lemma those_map_Some:
  "(\<forall>x \<in> set xs. f x = Some (g x)) \<Longrightarrow> those (map f xs) = Some (map g xs)"
  by (induction xs) simp_all

theorem atob_btoa: "atob (btoa s) = Inr s"
proof -
  let ?bs = "map of_char s :: nat list"
  let ?sx = "sextets ?bs"
  let ?p = "(3 - length s mod 3) mod 3"
  have bytes: "\<forall>x \<in> set ?bs. x < 256" by auto
  have sx: "\<forall>y \<in> set ?sx. y < 64" using sextets_bound [OF bytes] .
  have p: "?p \<le> 2" by simp
  have noWs: "filter (\<lambda>c. \<not> isAsciiWhitespace c) (btoa s) = btoa s"
    using sx b64char_plain(2) by (auto simp: btoa_def isAsciiWhitespace_def)
  have len: "length (btoa s) mod 4 = 0"
    using sextets_length [of ?bs] by (simp add: btoa_def)
  have strip: "stripPadding (btoa s) = map b64char ?sx"
    unfolding btoa_def by (rule stripPadding_b64 [OF sx p])
  have len2: "length (map b64char ?sx) mod 4 \<noteq> 1"
    using sextets_length [of ?bs] by simp
  have "those (map (b64val \<circ> b64char) ?sx) = Some (map id ?sx)"
    by (rule those_map_Some) (use sx b64val_b64char in auto)
  then have th: "those (map (b64val \<circ> b64char) ?sx) = Some ?sx" by simp
  have "map char_of (unsextets ?sx) = s"
    by (simp add: unsextets_sextets [OF bytes] comp_def)
  then show ?thesis
    using len2 by (simp add: atob_def noWs len strip th Let_def)
qed

subsection \<open>The lexer on the text of an encoded replay\<close>

lemma digit_code: "(d::nat) < 10 \<Longrightarrow> (of_char (char_of (48 + d)) :: nat) = 48 + d"
  by simp

lemma digit_zero:
  assumes "(d::nat) < 10"
  shows "char_of (48 + d) = CHR ''0'' \<longleftrightarrow> d = 0"
proof -
  have "char_of (48 + d) = CHR ''0''
          \<longleftrightarrow> (of_char (char_of (48 + d)) :: nat) = of_char (CHR ''0'')"
    by (simp only: of_char_eq_iff)
  also have "\<dots> \<longleftrightarrow> d = 0" using assms by simp
  finally show ?thesis .
qed

lemma isDigit_char_of: "(d::nat) < 10 \<Longrightarrow> isDigit (char_of (48 + d))"
  by (simp add: isDigit_def)

lemma showNat_digits: "\<forall>c \<in> set (showNat n). isDigit c"
proof (induction n rule: showNat.induct)
  case (1 n)
  show ?case
  proof (cases "n < 10")
    case True
    then show ?thesis by (subst showNat.simps) (simp add: isDigit_char_of)
  next
    case False
    have "isDigit (char_of (48 + n mod 10))" by (rule isDigit_char_of) simp
    with 1 False show ?thesis by (subst showNat.simps) simp
  qed
qed

lemma showNat_nonempty: "showNat n \<noteq> []"
  by (subst showNat.simps) simp

lemma natOfDigits_snoc:
  "natOfDigits (ds @ [c]) = natOfDigits ds * 10 + (of_char c - 48)"
  by (simp add: natOfDigits_def)

lemma natOfDigits_showNat: "natOfDigits (showNat n) = n"
proof (induction n rule: showNat.induct)
  case (1 n)
  show ?case
  proof (cases "n < 10")
    case True
    then show ?thesis by (subst showNat.simps) (simp add: natOfDigits_def)
  next
    case False
    have "(of_char (char_of (48 + n mod 10) :: char) :: nat) = 48 + n mod 10"
      by (rule digit_code) simp
    with 1 False show ?thesis
      by (subst showNat.simps) (simp add: natOfDigits_snoc)
  qed
qed

lemma showNat_hd: "hd (showNat n) = CHR ''0'' \<longleftrightarrow> n = 0"
proof (induction n rule: showNat.induct)
  case (1 n)
  show ?case
  proof (cases "n < 10")
    case True
    then show ?thesis by (subst showNat.simps) (simp add: digit_zero)
  next
    case False
    then have "n div 10 \<noteq> 0" by simp
    with 1 False showNat_nonempty [of "n div 10"] show ?thesis
      by (subst showNat.simps) simp
  qed
qed

lemma showNat_zero: "showNat 0 = ''0''"
proof -
  have "(of_char (char_of (48::nat)) :: nat) = of_char (CHR ''0'')" by simp
  then have "char_of (48::nat) = CHR ''0''" by (rule of_char_eqI)
  then show ?thesis by (subst showNat.simps) simp
qed

lemma natOfDigits_Nil: "natOfDigits [] = 0"
  by (simp add: natOfDigits_def)

lemma lexInt_showNat:
  assumes "\<not> isDigit c"
  shows "lexInt (showNat n @ c # rest) = (showNat n, c # rest)"
proof (cases "n = 0")
  case True
  then show ?thesis by (simp add: showNat_zero lexInt_def)
next
  case False
  obtain d ds where sn: "showNat n = d # ds"
    using showNat_nonempty [of n] by (cases "showNat n") auto
  with False showNat_hd [of n] have d: "d \<noteq> CHR ''0''" by simp
  have tw: "takeWhile isDigit (showNat n @ c # rest) = showNat n"
    using showNat_digits [of n] assms by (simp add: takeWhile_append2)
  have dw: "dropWhile isDigit (showNat n @ c # rest) = c # rest"
    using showNat_digits [of n] assms by (simp add: dropWhile_append2)
  have "lexInt (d # ds @ c # rest)
          = (takeWhile isDigit (d # ds @ c # rest), dropWhile isDigit (d # ds @ c # rest))"
    using d by (simp add: lexInt_def)
  with tw dw sn show ?thesis by simp
qed

lemma lexNumber_showNat:
  assumes "endsNumber c"
  shows "lexNumber (showNat n @ c # rest) = Some (real n, c # rest)"
proof -
  obtain d ds where sn: "showNat n = d # ds"
    using showNat_nonempty [of n] by (cases "showNat n") auto
  have "isDigit d" using showNat_digits [of n] sn by simp
  then have "d \<noteq> CHR ''-''" by (auto simp: isDigit_def)
  then have sg: "lexSign (showNat n @ c # rest) = (False, showNat n @ c # rest)"
    by (simp add: lexSign_def sn)
  have li: "lexInt (showNat n @ c # rest) = (showNat n, c # rest)"
    using assms by (intro lexInt_showNat) (simp add: endsNumber_def)
  have lf: "lexFrac (c # rest) = ([], c # rest)"
    using assms by (simp add: lexFrac_def endsNumber_def)
  have le: "lexExponent (c # rest) = (0, c # rest)"
    using assms by (simp add: lexExponent_def endsNumber_def)
  show ?thesis
    by (simp add: lexNumber_def sg li lf le showNat_nonempty natOfDigits_showNat
          natOfDigits_Nil)
qed

lemma lexNumber_showInt:
  assumes "endsNumber c"
  shows "lexNumber (showInt n @ c # rest) = Some (real_of_int n, c # rest)"
proof (cases "n < 0")
  case False
  then show ?thesis
    using lexNumber_showNat [OF assms, of "nat n" rest] by (simp add: showInt_def)
next
  case True
  let ?m = "nat (- n)"
  have sg: "lexSign (CHR ''-'' # showNat ?m @ c # rest) = (True, showNat ?m @ c # rest)"
    by (simp add: lexSign_def)
  have li: "lexInt (showNat ?m @ c # rest) = (showNat ?m, c # rest)"
    using assms by (intro lexInt_showNat) (simp add: endsNumber_def)
  have lf: "lexFrac (c # rest) = ([], c # rest)"
    using assms by (simp add: lexFrac_def endsNumber_def)
  have le: "lexExponent (c # rest) = (0, c # rest)"
    using assms by (simp add: lexExponent_def endsNumber_def)
  have "lexNumber (CHR ''-'' # showNat ?m @ c # rest) = Some (- real ?m, c # rest)"
    by (simp add: lexNumber_def sg li lf le showNat_nonempty natOfDigits_showNat
          natOfDigits_Nil)
  with True show ?thesis by (simp add: showInt_def)
qed

lemma showInt_first:
  "\<exists>d ds. showInt n = d # ds \<and> (d = CHR ''-'' \<or> isDigit d)"
proof (cases "n < 0")
  case True
  then show ?thesis by (simp add: showInt_def)
next
  case False
  obtain d ds where sn: "showNat (nat n) = d # ds"
    using showNat_nonempty [of "nat n"] by (cases "showNat (nat n)") auto
  with showNat_digits [of "nat n"] have "isDigit d" by simp
  with False sn show ?thesis by (simp add: showInt_def)
qed

lemma lex_number_start:
  assumes "d = CHR ''-'' \<or> isDigit d"
  shows "lex (d # cs) =
           (case lexNumber (d # cs) of
              None \<Rightarrow> None
            | Some (x, rest) \<Rightarrow> map_option ((#) (TNum x)) (lex rest))"
proof -
  have "\<not> isJsonWhitespace d" "d \<noteq> CHR ''{''" "d \<noteq> CHR ''}''" "d \<noteq> CHR ''[''"
       "d \<noteq> CHR '']''" "d \<noteq> CHR '':''" "d \<noteq> CHR '',''" "d \<noteq> CHR 0x22"
    using assms by (auto simp: isDigit_def isJsonWhitespace_def)
  with assms show ?thesis by (subst lex.simps) simp
qed

lemma lex_showInt:
  assumes "endsNumber c"
  shows "lex (showInt n @ c # rest) = map_option ((#) (TNum (real_of_int n))) (lex (c # rest))"
proof -
  obtain d ds where si: "showInt n = d # ds" and d: "d = CHR ''-'' \<or> isDigit d"
    using showInt_first [of n] by blast
  have "lex (d # ds @ c # rest) =
          (case lexNumber (d # ds @ c # rest) of
             None \<Rightarrow> None
           | Some (x, r) \<Rightarrow> map_option ((#) (TNum x)) (lex r))"
    by (rule lex_number_start [OF d])
  moreover have "lexNumber (d # ds @ c # rest) = Some (real_of_int n, c # rest)"
    using lexNumber_showInt [OF assms, of n rest] si by simp
  ultimately show ?thesis using si by simp
qed

lemma lex_punct:
  "lex (CHR ''{'' # cs) = map_option ((#) TLBrace) (lex cs)"
  "lex (CHR ''}'' # cs) = map_option ((#) TRBrace) (lex cs)"
  "lex (CHR ''['' # cs) = map_option ((#) TLBrack) (lex cs)"
  "lex (CHR '']'' # cs) = map_option ((#) TRBrack) (lex cs)"
  "lex (CHR '':'' # cs) = map_option ((#) TColon) (lex cs)"
  "lex (CHR '','' # cs) = map_option ((#) TComma) (lex cs)"
  "lex (CHR 0x22 # cs) =
     (case lexString cs of
        None \<Rightarrow> None
      | Some (s, rest) \<Rightarrow> map_option ((#) (TStr s)) (lex rest))"
  by (subst lex.simps, simp add: isJsonWhitespace_def)+

lemma endsNumber_punct [simp]: "endsNumber (CHR '','')" "endsNumber (CHR ''}'')"
  by (simp_all add: endsNumber_def isDigit_def)

lemma lex_frame:
  "lex (stringifyFrame fr @ rest) = map_option (\<lambda>ts. frameTokens fr @ ts) (lex rest)"
proof -
  have "lex (showInt (inputBits (inputs fr)) @ CHR ''}'' # rest)
          = map_option ((#) (TNum (real_of_int (inputBits (inputs fr)))))
              (lex (CHR ''}'' # rest))"
    by (rule lex_showInt) simp
  moreover have "lex (showInt (tick fr) @ CHR '','' # cs)
          = map_option ((#) (TNum (real_of_int (tick fr)))) (lex (CHR '','' # cs))" for cs
    by (rule lex_showInt) simp
  ultimately show ?thesis
    by (simp add: stringifyFrame_def frameTokens_def lex_punct lexString_def jsString_def
          option.map_comp comp_def)
qed

lemma lex_frames:
  "lex (stringifyFrames frs @ rest) = map_option (\<lambda>ts. framesTokens frs @ ts) (lex rest)"
proof (induction frs rule: stringifyFrames.induct)
  case 1
  show ?case by (simp add: option.map_ident)
next
  case (2 fr)
  show ?case by (simp add: lex_frame)
next
  case (3 fr v va)
  then show ?case
    by (simp add: lex_frame lex_punct option.map_comp comp_def)
qed

lemma lex_mode:
  "lexString (modeName m @ CHR 0x22 # rest) = Some (jsString (modeName m), rest)"
  by (cases m) (simp_all add: modeName_def lexString_def jsString_def)

lemma lex_stringifyCompact: "lex (stringifyCompact replay) = Some (compactTokens replay)"
proof -
  have n: "lex (showInt k @ CHR '','' # cs)
          = map_option ((#) (TNum (real_of_int k))) (lex (CHR '','' # cs))" for k cs
    by (rule lex_showInt) simp
  have e: "lex '']}'' = Some [TRBrack, TRBrace]"
    by (simp add: lex_punct lex.simps(1))
  show ?thesis
    by (simp add: stringifyCompact_def compactTokens_def lex_punct lexString_def jsString_def
          n lex_frames e lex_mode [unfolded lexString_def jsString_def]
          option.map_comp comp_def lex.simps(1))
qed

subsection \<open>The parser on the tokens of an encoded replay\<close>

lemma parse_frame:
  assumes "st = PValue \<or> st = PArrFirst"
  shows "parseTokens (st, InArr vs # stack) (frameTokens fr @ ts)
           = parseTokens (PAfter, InArr (frameJson fr # vs) # stack) ts"
  using assms by (auto simp: frameTokens_def frameJson_def)

lemma parse_frames:
  assumes "frs \<noteq> []" and "st = PValue \<or> st = PArrFirst"
  shows "parseTokens (st, InArr vs # stack) (framesTokens frs @ ts)
           = parseTokens (PAfter, InArr (rev (map frameJson frs) @ vs) # stack) ts"
  using assms
proof (induction frs arbitrary: st vs rule: framesTokens.induct)
  case 1
  then show ?case by simp
next
  case (2 fr)
  then show ?case by (simp add: parse_frame)
next
  case (3 fr v va)
  have "parseTokens (st, InArr vs # stack) (framesTokens (fr # v # va) @ ts)
          = parseTokens (PAfter, InArr (frameJson fr # vs) # stack)
              (TComma # framesTokens (v # va) @ ts)"
    using parse_frame [OF "3.prems"(2), of vs stack fr] by simp
  also have "\<dots> = parseTokens (PValue, InArr (frameJson fr # vs) # stack)
                       (framesTokens (v # va) @ ts)"
    by simp
  also have "\<dots> = parseTokens (PAfter,
                        InArr (rev (map frameJson (v # va)) @ frameJson fr # vs) # stack) ts"
    by (rule "3.IH") simp_all
  finally show ?case by simp
qed

lemma parse_compactTokens:
  "parseTokens (PValue, []) (compactTokens replay) = Some (compactJson replay)"
proof (cases "frames replay = []")
  case True
  then show ?thesis by (simp add: compactTokens_def compactJson_def)
next
  case False
  have "parseTokens (PArrFirst, InArr [] # stack) (framesTokens (frames replay) @ ts)
          = parseTokens (PAfter, InArr (rev (map frameJson (frames replay)) @ []) # stack) ts"
    for stack ts
    by (rule parse_frames [OF False]) simp
  then show ?thesis by (simp add: compactTokens_def compactJson_def)
qed

lemma JSON_parse_stringifyCompact:
  "JSON_parse (stringifyCompact replay) = Inr (compactJson replay)"
  by (simp add: JSON_parse_def lex_stringifyCompact parse_compactTokens)

subsection \<open>Decoding the value of an encoded replay\<close>

lemma jsTruncate_of_int: "jsTruncate (real_of_int n) = n"
  by (simp add: jsTruncate_def)

lemma inputBits_range: "0 \<le> inputBits inp \<and> inputBits inp \<le> 7"
  by (simp add: inputBits_def)

lemma inputBits_decode:
  "\<lparr> left = (inputBits inp mod 2 = 1), right = (inputBits inp div 2 mod 2 = 1),
     jump = (inputBits inp div 4 mod 2 = 1) \<rparr> = inp"
  by (cases inp) (simp add: inputBits_def)

lemma toInt32_small: "- 2147483648 \<le> n \<Longrightarrow> n < 2147483648 \<Longrightarrow> toInt32 n = n"
  by (simp add: toInt32_def)

lemma decodeFrame_frameJson:
  "decodeFrame coerce (frameJson fr)
     = Inr \<lparr> dTick = Some (JNum (real_of_int (tick fr))), dInputs = inputs fr \<rparr>"
proof -
  have "toInt32 (inputBits (inputs fr)) = inputBits (inputs fr)"
    using inputBits_range [of "inputs fr"] by (intro toInt32_small) simp_all
  then show ?thesis
    by (simp add: decodeFrame_def frameJson_def jsString_def jsTruncate_of_int
          inputBits_decode)
qed

lemma decodeFrames_frameJson:
  "decodeFrames coerce (map frameJson frs)
     = Inr (map (\<lambda>fr. \<lparr> dTick = Some (JNum (real_of_int (tick fr))),
                         dInputs = inputs fr \<rparr>) frs)"
  by (induction frs) (simp_all add: decodeFrame_frameJson)

text \<open>
  Claim C1: decoding an encoded replay returns a non-null object with the version, the
  seed and the mode of the replay and, frame by frame in order, the same tick and the
  same three inputs, for every replay and every combination of inputs.
\<close>

theorem replay_round_trip:
  "decodeReplayFromUrl coerce (encodeReplayToUrl replay)
     = Some \<lparr> dVersion = Some (JNum (real_of_int (version replay))),
              dSeed = Some (JNum (real_of_int (seed replay))),
              dMode = Some (JStr (jsString (modeName (mode replay)))),
              dSettings = emptySettings,
              dFrames = map (\<lambda>fr. \<lparr> dTick = Some (JNum (real_of_int (tick fr))),
                                     dInputs = inputs fr \<rparr>) (frames replay),
              dStartTime = 0, dPlayerName = ''Replay'' \<rparr>"
  by (simp add: decodeReplayFromUrl_def decodeBody_def encodeReplayToUrl_def atob_btoa
        JSON_parse_stringifyCompact decodeFrames_frameJson)
     (simp add: compactJson_def jsString_def decodeFrames_frameJson)

theorem replay_round_trip_witness:
  "map_option (\<lambda>d. (dSeed d, dMode d, map dTick (dFrames d), map dInputs (dFrames d)))
     (decodeReplayFromUrl (\<lambda>v. None) (encodeReplayToUrl sampleReplay))
     = Some (Some (JNum 12345), Some (JStr (jsString ''classic'')),
             [Some (JNum 1), Some (JNum 2), Some (JNum 3), Some (JNum 4), Some (JNum 5)],
             [\<lparr> left = False, right = False, jump = False \<rparr>,
              \<lparr> left = True, right = False, jump = False \<rparr>,
              \<lparr> left = False, right = True, jump = False \<rparr>,
              \<lparr> left = False, right = False, jump = True \<rparr>,
              \<lparr> left = True, right = False, jump = True \<rparr>])"
  using replay_round_trip [of "\<lambda>v. None" sampleReplay]
  by (simp add: sampleReplay_def modeName_def comp_def)

subsection \<open>Malformed input\<close>





end
